theory Spec2Isabelle
  imports Complex_Main "HOL-Library.Sublist" "HOL-Library.Char_ord" "HOL-Library.List_Lexorder"
    "HOL-Library.Log_Nat"
begin

section \<open>Text primitives of the import scanner\<close>

text \<open>
  The import command reads the export into a JavaScript string and scans it with
  \<^verbatim>\<open>String.prototype.includes\<close>, \<^verbatim>\<open>match\<close>, \<^verbatim>\<open>replace\<close>, \<^verbatim>\<open>trim\<close> and
  \<^verbatim>\<open>split\<close>. The text is modelled as a \<^typ>\<open>string\<close> of ASCII characters; the
  default \<^verbatim>\<open>Array.prototype.sort\<close> compares code units lexicographically, which on such
  strings is the lexicographic order of \<^typ>\<open>char list\<close>.
\<close>

text \<open>\<^verbatim>\<open>text.includes(sub)\<close>: some position of the text starts with \<open>sub\<close>.\<close>

fun str_includes :: "string \<Rightarrow> string \<Rightarrow> bool" where
  "str_includes sub [] = (sub = [])"
| "str_includes sub (c # cs) = (prefix sub (c # cs) \<or> str_includes sub cs)"

text \<open>
  \<^verbatim>\<open>text.match(/<Record[^>]*>/g)\<close> and \<^verbatim>\<open>text.match(/<Workout[^>]*>/g)\<close>: all matches,
  leftmost first, not overlapping. At a position that starts with the opener, the greedy
  \<^verbatim>\<open>[^>]*\<close> takes every character up to the next \<open>>\<close>; the match succeeds exactly when
  there is such a \<open>>\<close>, and scanning resumes after it. Elsewhere the scan moves on by one
  character.
\<close>

function matchTags :: "string \<Rightarrow> string \<Rightarrow> string list" where
  "matchTags opener [] = []"
| "matchTags opener (c # cs) =
     (if prefix opener (c # cs)
      then (let rest = drop (length opener) (c # cs);
                body = takeWhile (\<lambda>x. x \<noteq> CHR ''>'') rest in
            if length body < length rest
            then (opener @ body @ ''>'') # matchTags opener (drop (Suc (length body)) rest)
            else matchTags opener cs)
      else matchTags opener cs)"
  by pat_completeness auto
termination
  by (relation "measure (\<lambda>(opener, s). length s)") auto

text \<open>
  \<^verbatim>\<open>s.match(/key="([^"]+)"/)\<close> for a literal \<open>key="\<close>: the capture group of the leftmost
  match, if any. The value is the longest run of characters other than the double quote;
  it must be non-empty and followed by a double quote.
\<close>

fun matchAttr :: "string \<Rightarrow> string \<Rightarrow> string option" where
  "matchAttr key [] = None"
| "matchAttr key (c # cs) =
     (if prefix key (c # cs)
      then (let rest = drop (length key) (c # cs);
                v = takeWhile (\<lambda>x. x \<noteq> CHR 0x22) rest in
            if v \<noteq> [] \<and> length v < length rest
            then Some v
            else matchAttr key cs)
      else matchAttr key cs)"

text \<open>
  \<^verbatim>\<open>text.match(/key="([^"]+)"/g)\<close>: the full text of every match, leftmost first, not
  overlapping.
\<close>

function matchAttrAll :: "string \<Rightarrow> string \<Rightarrow> string list" where
  "matchAttrAll key [] = []"
| "matchAttrAll key (c # cs) =
     (if prefix key (c # cs)
      then (let rest = drop (length key) (c # cs);
                v = takeWhile (\<lambda>x. x \<noteq> CHR 0x22) rest in
            if v \<noteq> [] \<and> length v < length rest
            then (key @ v @ [CHR 0x22]) # matchAttrAll key (drop (Suc (length v)) rest)
            else matchAttrAll key cs)
      else matchAttrAll key cs)"
  by pat_completeness auto
termination
  by (relation "measure (\<lambda>(key, s). length s)") auto

definition isUpper :: "char \<Rightarrow> bool" where
  "isUpper c = (CHR ''A'' \<le> c \<and> c \<le> CHR ''Z'')"

definition isLetter :: "char \<Rightarrow> bool" where
  "isLetter c = (CHR ''A'' \<le> c \<and> c \<le> CHR ''Z'' \<or> CHR ''a'' \<le> c \<and> c \<le> CHR ''z'')"

text \<open>
  \<^verbatim>\<open>s.replace(/HK[A-Za-z]*TypeIdentifier/, '')\<close>: only the leftmost match is removed. At a
  position that starts with \<open>HK\<close> the greedy \<^verbatim>\<open>[A-Za-z]*\<close> first takes the whole run of
  letters and then gives characters back one at a time until \<open>TypeIdentifier\<close> follows;
  \<open>matchHKPrefix\<close> returns what is left of the string after the match.
\<close>

definition matchHKPrefix :: "string \<Rightarrow> string option" where
  "matchHKPrefix s =
     (if prefix ''HK'' s
      then (let rest = drop 2 s; n = length (takeWhile isLetter rest) in
            case List.find (\<lambda>k. prefix ''TypeIdentifier'' (drop k rest)) (rev [0..<Suc n]) of
              Some k \<Rightarrow> Some (drop (k + 14) rest)
            | None \<Rightarrow> None)
      else None)"

fun stripHKTypeIdentifier :: "string \<Rightarrow> string" where
  "stripHKTypeIdentifier [] = []"
| "stripHKTypeIdentifier (c # cs) =
     (case matchHKPrefix (c # cs) of
        Some after \<Rightarrow> after
      | None \<Rightarrow> c # stripHKTypeIdentifier cs)"

text \<open>\<^verbatim>\<open>s.replace(/([A-Z])/g, ' $1')\<close>: a space goes in front of every capital letter.\<close>

definition spaceBeforeCapitals :: "string \<Rightarrow> string" where
  "spaceBeforeCapitals s = concat (map (\<lambda>c. if isUpper c then [CHR '' '', c] else [c]) s)"

text \<open>\<^verbatim>\<open>s.trim()\<close>, on the ASCII white space characters (tab, LF, VT, FF, CR, space).\<close>

definition isSpace :: "char \<Rightarrow> bool" where
  "isSpace c = (c \<in> {CHR 0x09, CHR 0x0A, CHR 0x0B, CHR 0x0C, CHR 0x0D, CHR '' ''})"

definition trim :: "string \<Rightarrow> string" where
  "trim s = rev (dropWhile isSpace (rev (dropWhile isSpace s)))"

text \<open>\<^verbatim>\<open>s.split(' ')[0]\<close>: the text before the first space.\<close>

definition beforeSpace :: "string \<Rightarrow> string" where
  "beforeSpace s = takeWhile (\<lambda>x. x \<noteq> CHR '' '') s"

text \<open>Decimal digits, and the decimal rendering of a count inside a template literal.\<close>

definition digit :: "nat \<Rightarrow> char" where
  "digit d = ''0123456789'' ! d"

fun showNat :: "nat \<Rightarrow> string" where
  "showNat n =
     (if n < 10 then [digit n]
      else showNat (n div 10) @ [digit (n mod 10)])"

text \<open>\<^verbatim>\<open>Set.prototype.add\<close> on an insertion-ordered set without duplicates.\<close>

definition setAdd :: "string \<Rightarrow> string list \<Rightarrow> string list" where
  "setAdd x xs = (if x \<in> set xs then xs else xs @ [x])"

section \<open>The Apple Health export scanner\<close>

record DateRange =
  range_start :: string
  range_end :: string

record ParseResult =
  recordCount :: nat
  dataTypes :: "string list"
  dateRange :: DateRange
  warnings :: "string list"

text \<open>The only exception \<^verbatim>\<open>parseAppleHealthXML\<close> throws; it carries its message.\<close>

datatype scan_error = MalformedImport string

definition simplifyType :: "string \<Rightarrow> string" where
  "simplifyType fullType = trim (spaceBeforeCapitals (stripHKTypeIdentifier fullType))"

text \<open>The body of the \<^verbatim>\<open>forEach\<close> over the sampled record openers.\<close>

definition addRecordType :: "string list \<Rightarrow> string \<Rightarrow> string list" where
  "addRecordType types rec =
     (case matchAttr ''type=\"'' rec of
        Some fullType \<Rightarrow> setAdd (simplifyType fullType) types
      | None \<Rightarrow> types)"

definition hrvLabel :: string where
  "hrvLabel = ''Heart Rate Variability SDNN''"

definition sleepLabel :: string where
  "sleepLabel = ''Sleep Analysis''"

definition noRecordsWarning :: string where
  "noRecordsWarning = ''No health records found in export''"

definition largeWarning :: "nat \<Rightarrow> string" where
  "largeWarning n = ''Large dataset ('' @ showNat n @ '' records) - processing limited for demo''"

definition hrvWarning :: string where
  "hrvWarning = ''HRV data not found in export''"

definition sleepWarning :: string where
  "sleepWarning = ''Sleep data not found in export''"

definition privacyNotice :: string where
  "privacyNotice =
     ''NOTE: This is a parser demo - no personal health data is stored or transmitted''"

text \<open>
  \<^verbatim>\<open>dates[0]\<close> and \<^verbatim>\<open>dates[dates.length - 1]\<close> are \<^verbatim>\<open>undefined\<close> on an empty
  array; \<^verbatim>\<open>d?.split(' ')[0] || ''\<close> then gives the empty string.
\<close>

definition firstOf :: "string list \<Rightarrow> string option" where
  "firstOf ds = (case ds of [] \<Rightarrow> None | d # _ \<Rightarrow> Some d)"

definition lastOf :: "string list \<Rightarrow> string option" where
  "lastOf ds = (if ds = [] then None else Some (last ds))"

definition dayOf :: "string option \<Rightarrow> string" where
  "dayOf d = (case d of None \<Rightarrow> [] | Some t \<Rightarrow> beforeSpace t)"

definition parseAppleHealthXML :: "string \<Rightarrow> scan_error + ParseResult" where
  "parseAppleHealthXML xmlContent =
     (if \<not> str_includes ''<HealthData'' xmlContent
      then Inl (MalformedImport
             ''Not a valid Apple Health export - missing HealthData root element'')
      else
        let recordMatches = matchTags ''<Record'' xmlContent;
            workoutMatches = matchTags ''<Workout'' xmlContent;
            count = length recordMatches + length workoutMatches;
            types = foldl addRecordType [] (take 1000 recordMatches);
            dateMatches = matchAttrAll ''startDate=\"'' xmlContent;
            dates = sort (List.map_filter (matchAttr ''startDate=\"'') dateMatches);
            startDate = (if dateMatches \<noteq> [] then dayOf (firstOf dates) else []);
            endDate = (if dateMatches \<noteq> [] then dayOf (lastOf dates) else []);
            w1 = (if count = 0 then [noRecordsWarning] else []);
            w2 = (if count > 50000 then [largeWarning count] else []);
            w3 = (if hrvLabel \<notin> set types then [hrvWarning] else []);
            w4 = (if sleepLabel \<notin> set types then [sleepWarning] else [])
        in Inr \<lparr> recordCount = count,
                 dataTypes = sort types,
                 dateRange = \<lparr> range_start = startDate, range_end = endDate \<rparr>,
                 warnings = w1 @ w2 @ w3 @ w4 @ [privacyNotice] \<rparr>)"

section \<open>Numbers, randomness and the clock\<close>

text \<open>
  A JavaScript number is an IEEE 754 double: a real of the form \<open>k * 2\<^sup>q\<close> with
  \<open>\<bar>k\<bar> < 2\<^sup>5\<^sup>3\<close> and \<open>q \<ge> -1074\<close>. Every arithmetic operation returns the double nearest to
  the exact result, a tie going to the neighbour with the even significand. \<open>fl\<close> is
  this rounding. \<open>binade a\<close> is the exponent \<open>e\<close> with \<open>2\<^sup>e \<le> a < 2\<^sup>e\<^sup>+\<^sup>1\<close>, found
  from the bit length of the integer part of \<open>a\<close> or of \<open>1 / a\<close>; below \<open>2\<^sup>-\<^sup>1\<^sup>0\<^sup>2\<^sup>2\<close> the
  spacing of the doubles stays that of the smallest normal binade. The exponent has no
  upper limit here: overflow to \<^verbatim>\<open>Infinity\<close> (beyond \<open>2\<^sup>1\<^sup>0\<^sup>2\<^sup>4\<close>) is not modelled, and no
  number formed from hours of sleep or from a clock reading comes near it. The mock
  data generators, the status snapshot and the sleep debt round every operation in this
  way.
\<close>

definition pow2 :: "int \<Rightarrow> real" where
  "pow2 e = (if 0 \<le> e then 2 ^ nat e else 1 / 2 ^ nat (- e))"

definition binade :: "real \<Rightarrow> int" where
  "binade a = (if 1 \<le> a then bitlen \<lfloor>a\<rfloor> - 1 else - bitlen (\<lceil>1 / a\<rceil> - 1))"

definition exponent :: "real \<Rightarrow> int" where
  "exponent x = (if x = 0 then - 1022 else max (binade \<bar>x\<bar>) (- 1022))"

text \<open>The distance between neighbouring doubles around \<open>x\<close>.\<close>

definition ulp :: "real \<Rightarrow> real" where
  "ulp x = pow2 (exponent x - 52)"

text \<open>The nearest integer, a tie going to the even one.\<close>

definition roundEven :: "real \<Rightarrow> int" where
  "roundEven y =
     (let f = \<lfloor>y\<rfloor>; r = y - of_int f
      in if r < 1 / 2 then f else if 1 / 2 < r then f + 1 else if even f then f else f + 1)"

definition fl :: "real \<Rightarrow> real" where
  "fl x = ulp x * of_int (roundEven (x / ulp x))"

text \<open>
  \<^verbatim>\<open>Math.round\<close> returns the nearest integer, a tie going up, with no rounding error of
  its own; \<^verbatim>\<open>Date.prototype.setTime\<close> drops the fraction of its argument (towards zero).
  The trend functions of the reports divide by a mean that may be zero; such a quotient
  is a \<open>jsnum\<close>, which keeps \<^verbatim>\<open>NaN\<close> and the infinities apart from the finite results.
\<close>

definition js_round :: "real \<Rightarrow> int" where
  "js_round x = \<lfloor>x + 1 / 2\<rfloor>"

definition js_trunc :: "real \<Rightarrow> int" where
  "js_trunc x = (if 0 \<le> x then \<lfloor>x\<rfloor> else \<lceil>x\<rceil>)"

datatype jsnum = Num real | NaN | PosInfinity | NegInfinity

definition js_div :: "real \<Rightarrow> real \<Rightarrow> jsnum" where
  "js_div a b =
     (if b \<noteq> 0 then Num (a / b)
      else if a = 0 then NaN
      else if 0 < a then PosInfinity else NegInfinity)"

text \<open>\<^verbatim>\<open>Math.round(x * k)\<close> on a possibly non-finite \<open>x\<close>, for a positive constant \<open>k\<close>.\<close>

definition js_round_times :: "jsnum \<Rightarrow> real \<Rightarrow> jsnum" where
  "js_round_times x k = (case x of Num r \<Rightarrow> Num (of_int (js_round (r * k))) | other \<Rightarrow> other)"

text \<open>
  The generators read three things from outside: \<^verbatim>\<open>Math.random()\<close>, the clock
  (\<^verbatim>\<open>new Date()\<close>) and the time zone of the machine. The environment fixes what the
  \<open>k\<close>-th call of each of the first two returns; the world counts the calls made so
  far. A \<^verbatim>\<open>Date\<close> is its time value, the milliseconds since the epoch in UTC.

  The time zone is given by its two offset functions (local time minus UTC, in
  milliseconds), which change at a daylight saving transition: \<open>zoneAt e t\<close> is the
  offset in force at the instant \<open>t\<close>, and \<open>zoneOfLocal e l\<close> is the offset by which the
  local time value \<open>l\<close> is read back as an instant (a wall-clock time skipped by a
  transition is read with the offset before it).
\<close>

record env =
  random :: "nat \<Rightarrow> real"
  clock :: "nat \<Rightarrow> int"
  zoneAt :: "int \<Rightarrow> int"
  zoneOfLocal :: "int \<Rightarrow> int"

record world =
  nrandom :: nat
  nclock :: nat

definition mathRandom :: "env \<Rightarrow> world \<Rightarrow> real \<times> world" where
  "mathRandom e w = (random e (nrandom w), w\<lparr>nrandom := Suc (nrandom w)\<rparr>)"

definition newDate :: "env \<Rightarrow> world \<Rightarrow> int \<times> world" where
  "newDate e w = (clock e (nclock w), w\<lparr>nclock := Suc (nclock w)\<rparr>)"

text \<open>
  \<^verbatim>\<open>Math.random()\<close> returns a number in \<open>[0, 1)\<close>, and successive clock readings never go
  back.
\<close>

definition wellFormed :: "env \<Rightarrow> bool" where
  "wellFormed e \<longleftrightarrow>
     (\<forall>k. 0 \<le> random e k \<and> random e k < 1) \<and> (\<forall>j k. j \<le> k \<longrightarrow> clock e j \<le> clock e k)"

definition msPerDay :: int where
  "msPerDay = 86400000"

text \<open>The local time value of an instant, and the instant of a local time value.\<close>

definition localTime :: "env \<Rightarrow> int \<Rightarrow> int" where
  "localTime e t = t + zoneAt e t"

definition utcOf :: "env \<Rightarrow> int \<Rightarrow> int" where
  "utcOf e l = l - zoneOfLocal e l"

text \<open>
  \<^verbatim>\<open>date.setDate(date.getDate() - i)\<close>: the same local time of day on the local calendar
  day \<open>i\<close> days earlier, read back as an instant.
\<close>

definition daysBack :: "env \<Rightarrow> int \<Rightarrow> nat \<Rightarrow> int" where
  "daysBack e t i = utcOf e (localTime e t - int i * msPerDay)"

text \<open>
  \<^verbatim>\<open>date.toISOString().split('T')[0]\<close> is the UTC calendar day of the time value. It is
  kept as the number of that day (days since the epoch) rather than as its
  \<open>YYYY-MM-DD\<close> rendering; consecutive days have consecutive numbers.
\<close>

definition isoDay :: "int \<Rightarrow> int" where
  "isoDay t = t div msPerDay"

text \<open>
  \<^verbatim>\<open>d.setHours(h, m)\<close> replaces the local hour and minute and keeps the seconds and
  milliseconds; an hour of 24 is the first hour of the next day.
\<close>

definition setHours :: "env \<Rightarrow> int \<Rightarrow> int \<Rightarrow> int \<Rightarrow> int" where
  "setHours e t h m =
     (let l = localTime e t
      in utcOf e ((l div msPerDay) * msPerDay + h * 3600000 + m * 60000 + l mod 60000))"

text \<open>Two decimal digits, for a number below 100.\<close>

definition pad2 :: "nat \<Rightarrow> string" where
  "pad2 n = [digit (n div 10), digit (n mod 10)]"

text \<open>The \<open>HH:MM\<close> rendering of a minute of the day.\<close>

definition hhmm :: "nat \<Rightarrow> string" where
  "hhmm m = pad2 (m div 60) @ '':'' @ pad2 (m mod 60)"

definition minuteOfDay :: "env \<Rightarrow> int \<Rightarrow> nat" where
  "minuteOfDay e t = nat ((localTime e t mod msPerDay) div 60000)"

text \<open>\<^verbatim>\<open>d.toTimeString().substring(0, 5)\<close>: the local time of day as \<open>HH:MM\<close>.\<close>

definition timeString5 :: "env \<Rightarrow> int \<Rightarrow> string" where
  "timeString5 e t = hhmm (minuteOfDay e t)"

text \<open>
  Between the instants \<open>lo\<close> and \<open>hi\<close> the zone keeps the one offset \<open>c\<close>: no daylight
  saving transition falls in that window.
\<close>

definition steadyZone :: "env \<Rightarrow> int \<Rightarrow> int \<Rightarrow> int \<Rightarrow> bool" where
  "steadyZone e c lo hi \<longleftrightarrow>
     (\<forall>t. lo \<le> t \<and> t \<le> hi \<longrightarrow> zoneAt e t = c \<and> zoneOfLocal e (t + c) = c)"

section \<open>Mock data generators\<close>

datatype hrv_category = Low | Normal | High

record HRVData =
  hrv_date :: int
  hrv_value :: real
  category :: hrv_category

text \<open>The \<^verbatim>\<open>if\<close> chain that assigns the category in \<^verbatim>\<open>generateMockHRV\<close>.\<close>

definition categorize :: "real \<Rightarrow> hrv_category" where
  "categorize v = (if v < 30 then Low else if 60 < v then High else Normal)"

text \<open>
  The body of the \<^verbatim>\<open>for\<close> loop at loop index \<open>i\<close>: the sample it pushes and the world
  it leaves. Each arithmetic operation is rounded to a double.
\<close>

definition hrvSample :: "env \<Rightarrow> nat \<Rightarrow> world \<Rightarrow> HRVData \<times> world" where
  "hrvSample e i w =
     (let (now, w1) = newDate e w;
          date = daysBack e now i;
          (r, w2) = mathRandom e w1;
          variation = fl (fl (r - 0.5) * 20);
          v = max 20 (min 80 (fl (45 + variation)))
      in (\<lparr> hrv_date = isoDay date,
            hrv_value = of_int (js_round v),
            category = categorize v \<rparr>, w2))"

text \<open>\<open>hrvLoop e n\<close> runs the loop indices \<open>n - 1, \<dots>, 0\<close>, in this order.\<close>

fun hrvLoop :: "env \<Rightarrow> nat \<Rightarrow> world \<Rightarrow> HRVData list \<times> world" where
  "hrvLoop e 0 w = ([], w)"
| "hrvLoop e (Suc i) w =
     (let (item, w1) = hrvSample e i w;
          (rest, w2) = hrvLoop e i w1
      in (item # rest, w2))"

definition generateMockHRV :: "env \<Rightarrow> nat \<Rightarrow> world \<Rightarrow> HRVData list \<times> world" where
  "generateMockHRV e days w = hrvLoop e days w"

record SleepData =
  sleep_date :: int
  duration_hours :: real
  deep_sleep_hours :: real
  rem_sleep_hours :: real
  sleep_score :: real
  bedtime :: string
  wake_time :: string

text \<open>
  The body of the loop of \<^verbatim>\<open>generateMockSleep\<close> at loop index \<open>i\<close>. The literals
  \<^verbatim>\<open>0.15\<close>, \<^verbatim>\<open>0.10\<close> and \<^verbatim>\<open>0.20\<close> are the doubles nearest to these decimals, and
  \<^verbatim>\<open>duration * 60 * 60 * 1000\<close> is evaluated from the left.
\<close>

definition sleepSample :: "env \<Rightarrow> nat \<Rightarrow> world \<Rightarrow> SleepData \<times> world" where
  "sleepSample e i w =
     (let (now, w1) = newDate e w;
          date = daysBack e now i;
          (r1, w2) = mathRandom e w1;
          duration = fl (6.5 + fl (r1 * 2.5));
          (r2, w3) = mathRandom e w2;
          deepSleep = fl (duration * fl (fl 0.15 + fl (r2 * fl 0.10)));
          (r3, w4) = mathRandom e w3;
          remSleep = fl (duration * fl (fl 0.20 + fl (r3 * fl 0.10)));
          (r4, w5) = mathRandom e w4;
          (r5, w6) = mathRandom e w5;
          bed = setHours e date (22 + \<lfloor>fl (r4 * 3)\<rfloor>) \<lfloor>fl (r5 * 60)\<rfloor>;
          wake = js_trunc (fl (of_int bed + fl (fl (fl (duration * 60) * 60) * 1000)));
          (r6, w7) = mathRandom e w6;
          sleepScore = js_round (fl (60 + fl (r6 * 35)))
      in (\<lparr> sleep_date = isoDay date,
            duration_hours = fl (of_int (js_round (fl (duration * 10))) / 10),
            deep_sleep_hours = fl (of_int (js_round (fl (deepSleep * 10))) / 10),
            rem_sleep_hours = fl (of_int (js_round (fl (remSleep * 10))) / 10),
            sleep_score = of_int sleepScore,
            bedtime = timeString5 e bed,
            wake_time = timeString5 e wake \<rparr>, w7))"

fun sleepLoop :: "env \<Rightarrow> nat \<Rightarrow> world \<Rightarrow> SleepData list \<times> world" where
  "sleepLoop e 0 w = ([], w)"
| "sleepLoop e (Suc i) w =
     (let (item, w1) = sleepSample e i w;
          (rest, w2) = sleepLoop e i w1
      in (item # rest, w2))"

definition generateMockSleep :: "env \<Rightarrow> nat \<Rightarrow> world \<Rightarrow> SleepData list \<times> world" where
  "generateMockSleep e days w = sleepLoop e days w"

section \<open>Status snapshot and alert thresholds\<close>

datatype hrv_trend = Up | Down | Steady

text \<open>
  The two alert lines of the status snapshot. Their texts start with an emoji, so they
  are kept as constructors: \<open>HRVLowAlert\<close> is "HRV is low - consider rest day",
  \<open>InsufficientSleepAlert\<close> is "Insufficient sleep last night".
\<close>

datatype status_alert = HRVLowAlert | InsufficientSleepAlert

record HrvStatus =
  hrv_current :: real
  hrv_trend :: hrv_trend
  hrv_category :: hrv_category

record SleepStatus =
  last_night_hours :: real
  avg_7_day :: real
  score :: real

record Activity =
  steps :: int
  active_calories :: int
  exercise_minutes :: int

record HealthStatus =
  status_date :: int
  hrv :: HrvStatus
  sleep :: SleepStatus
  activity :: Activity
  alerts :: "status_alert list"

text \<open>
  Both generators are called with 7 days, so \<^verbatim>\<open>recentHRV[recentHRV.length - 1]\<close> and
  its neighbours exist; they are read with \<^const>\<open>last\<close> and \<^const>\<open>nth\<close>.
\<close>

definition generateMockStatus :: "env \<Rightarrow> world \<Rightarrow> HealthStatus \<times> world" where
  "generateMockStatus e w =
     (let (now, w1) = newDate e w;
          today = isoDay now;
          (recentHRV, w2) = generateMockHRV e 7 w1;
          (recentSleep, w3) = generateMockSleep e 7 w2;
          currentHRV = last recentHRV;
          lastNightSleep = last recentSleep;
          avgSleep = fl (foldl (\<lambda>sum s. fl (sum + duration_hours s)) 0 recentSleep / 7);
          previous = hrv_value (recentHRV ! (length recentHRV - 2));
          hrvTrend = (if length recentHRV > 1
                      then (if hrv_value currentHRV > previous then Up
                            else if hrv_value currentHRV < previous then Down else Steady)
                      else Steady);
          a1 = (if hrv_value currentHRV < 30 then [HRVLowAlert] else []);
          a2 = (if duration_hours lastNightSleep < 6 then [InsufficientSleepAlert] else []);
          (r1, w4) = mathRandom e w3;
          (r2, w5) = mathRandom e w4;
          (r3, w6) = mathRandom e w5
      in (\<lparr> status_date = today,
            hrv = \<lparr> hrv_current = hrv_value currentHRV,
                    hrv_trend = hrvTrend,
                    hrv_category = category currentHRV \<rparr>,
            sleep = \<lparr> last_night_hours = duration_hours lastNightSleep,
                      avg_7_day = fl (of_int (js_round (fl (avgSleep * 10))) / 10),
                      score = sleep_score lastNightSleep \<rparr>,
            activity = \<lparr> steps = 8500 + \<lfloor>fl (r1 * 3000)\<rfloor>,
                         active_calories = 450 + \<lfloor>fl (r2 * 200)\<rfloor>,
                         exercise_minutes = 25 + \<lfloor>fl (r3 * 40)\<rfloor> \<rparr>,
            alerts = a1 @ a2 \<rparr>, w6))"

datatype alert_status = Ok | Warning | Critical

record AlertThreshold =
  metric :: string
  threshold :: real
  current :: real
  status :: alert_status
  message :: string

text \<open>The array literal that \<^verbatim>\<open>generateMockAlerts\<close> returns, as a function of the status.\<close>

definition alertThresholds :: "HealthStatus \<Rightarrow> AlertThreshold list" where
  "alertThresholds st =
     [ \<lparr> metric = ''HRV'',
         threshold = 30,
         current = hrv_current (hrv st),
         status = (if hrv_current (hrv st) < 30 then Warning else Ok),
         message = (if hrv_current (hrv st) < 30 then ''HRV below recovery threshold''
                    else ''HRV within normal range'') \<rparr>,
       \<lparr> metric = ''Sleep Duration'',
         threshold = 6,
         current = last_night_hours (sleep st),
         status = (if last_night_hours (sleep st) < 6 then Warning else Ok),
         message = (if last_night_hours (sleep st) < 6 then ''Insufficient sleep duration''
                    else ''Sleep duration adequate'') \<rparr>,
       \<lparr> metric = ''Daily Steps'',
         threshold = 5000,
         current = of_int (steps (activity st)),
         status = (if steps (activity st) < 5000 then Warning else Ok),
         message = (if steps (activity st) < 5000 then ''Below recommended daily steps''
                    else ''Meeting step goals'') \<rparr> ]"

definition generateMockAlerts :: "env \<Rightarrow> world \<Rightarrow> AlertThreshold list \<times> world" where
  "generateMockAlerts e w = (let (st, w1) = generateMockStatus e w in (alertThresholds st, w1))"

section \<open>Trend analysis\<close>

datatype direction = Stable | Improving | Declining | InsufficientData

datatype significance = NoSignificance | Moderate | Significant

text \<open>
  The result object of \<^verbatim>\<open>analyzeHRVTrend\<close>. The early return carries no
  \<^verbatim>\<open>change_percent\<close> property, which is \<open>None\<close> here.
\<close>

record TrendResult =
  direction :: direction
  change :: real
  change_percent :: "jsnum option"
  significance :: significance

text \<open>\<^verbatim>\<open>xs.slice(-3)\<close> and \<^verbatim>\<open>xs.slice(0, 3)\<close>; both are the whole array when it is short.\<close>

definition lastThree :: "'a list \<Rightarrow> 'a list" where
  "lastThree xs = drop (length xs - 3) xs"

definition firstThree :: "'a list \<Rightarrow> 'a list" where
  "firstThree xs = take 3 xs"

text \<open>
  The locals \<^verbatim>\<open>recent\<close>, \<^verbatim>\<open>earlier\<close> and \<^verbatim>\<open>change\<close> of both trend functions. The
  two means and their difference are taken in exact arithmetic.
\<close>

definition recentMean :: "real list \<Rightarrow> real" where
  "recentMean vs = foldl (\<lambda>sum v. sum + v) 0 (lastThree vs) / 3"

definition earlierMean :: "real list \<Rightarrow> real" where
  "earlierMean vs = foldl (\<lambda>sum v. sum + v) 0 (firstThree vs) / 3"

definition windowChange :: "real list \<Rightarrow> real" where
  "windowChange vs = recentMean vs - earlierMean vs"

definition analyzeHRVTrend :: "HRVData list \<Rightarrow> TrendResult" where
  "analyzeHRVTrend data =
     (if length data < 2
      then \<lparr> direction = InsufficientData, change = 0, change_percent = None,
             significance = NoSignificance \<rparr>
      else
        let vs = map hrv_value data;
            earlier = earlierMean vs;
            chg = windowChange vs;
            changePercent = js_round_times (js_div chg earlier) 100;
            (dir, sig) =
              (if \<bar>chg\<bar> < 2 then (Stable, NoSignificance)
               else if 0 < chg then (Improving, if 5 < chg then Significant else Moderate)
               else (Declining, if chg < - 5 then Significant else Moderate))
        in \<lparr> direction = dir, change = of_int (js_round chg),
              change_percent = Some changePercent, significance = sig \<rparr>)"

text \<open>\<^verbatim>\<open>calculateTrend\<close> of the sleep report returns the direction alone.\<close>

definition calculateTrend :: "real list \<Rightarrow> direction" where
  "calculateTrend vs =
     (if length vs < 3 then InsufficientData
      else
        let chg = windowChange vs
        in if \<bar>chg\<bar> < 0.2 then Stable
           else if 0 < chg then Improving else Declining)"

section \<open>Sleep debt\<close>



text \<open>
  The accumulator \<^verbatim>\<open>totalDebt\<close> after the \<^verbatim>\<open>forEach\<close> over the nights: the
  subtraction and the addition of \<^verbatim>\<open>totalDebt += targetHours - night.duration_hours\<close>
  are each rounded to a double.
\<close>

definition totalDebt :: "SleepData list \<Rightarrow> real" where
  "totalDebt data =
     foldl (\<lambda>debt night. if duration_hours night < 8
                           then fl (debt + fl (8 - duration_hours night))
                           else debt) 0 data"



section \<open>Concrete inputs\<close>

text \<open>
  The documents, environments and records at which the results below are evaluated. The
  environment \<open>demoEnv\<close> draws \<open>1/2\<close> every time, reads the epoch from the clock and runs
  in UTC.
\<close>

definition specVector :: string where
  "specVector = ''<HealthData><Record type=\"HKQuantityTypeIdentifierHeartRateVariabilitySDNN\" startDate=\"2024-01-01 08:00:00 +0000\"/><Record type=\"HKCategoryTypeIdentifierSleepAnalysis\" startDate=\"2024-01-03 08:00:00 +0000\"/></HealthData>''"

definition specRecord1 :: string where
  "specRecord1 = ''<Record type=\"HKQuantityTypeIdentifierHeartRateVariabilitySDNN\" startDate=\"2024-01-01 08:00:00 +0000\"/>''"

definition specRecord2 :: string where
  "specRecord2 = ''<Record type=\"HKCategoryTypeIdentifierSleepAnalysis\" startDate=\"2024-01-03 08:00:00 +0000\"/>''"

definition demoEnv :: env where
  "demoEnv = \<lparr> random = (\<lambda>k. 1 / 2), clock = (\<lambda>k. 0),
               zoneAt = (\<lambda>t. 0), zoneOfLocal = (\<lambda>l. 0) \<rparr>"

text \<open>
  \<open>nyEnv\<close> is a machine in New York whose clock reads 2026-03-10 23:30:00 UTC (19:30
  local time) and which draws \<open>1/2\<close> every time. Daylight saving time began there on
  2026-03-08 at 07:00 UTC, when the local clocks went from 02:00 to 03:00: the offset is
  -5 hours before that instant and -4 hours from it on, and a local time value is read
  with -5 hours when it lies before 03:00 of that day.
\<close>

definition nyEnv :: env where
  "nyEnv = \<lparr> random = (\<lambda>k. 1 / 2), clock = (\<lambda>k. 1773185400000),
             zoneAt = (\<lambda>t. if t < 1772953200000 then - 18000000 else - 14400000),
             zoneOfLocal = (\<lambda>l. if l < 1772938800000 then - 18000000 else - 14400000) \<rparr>"


definition startWorld :: world where
  "startWorld = \<lparr> nrandom = 0, nclock = 0 \<rparr>"

text \<open>
  The night that \<open>demoEnv\<close> generates, and the last night that \<open>nyEnv\<close> generates. The
  hours are the doubles nearest to 7.8, 1.6 and 1.9.
\<close>

definition demoNight :: SleepData where
  "demoNight = \<lparr> sleep_date = 0, duration_hours = fl (78 / 10), deep_sleep_hours = fl (16 / 10),
                 rem_sleep_hours = fl (19 / 10), sleep_score = 78, bedtime = ''23:30'',
                 wake_time = ''07:15'' \<rparr>"


text \<open>
  The night of 7 to 8 March 2026 as \<open>nyEnv\<close> generates it: the clocks go forward
  between its bedtime and its wake time.
\<close>

definition nySpringNight :: SleepData where
  "nySpringNight = demoNight \<lparr> sleep_date := 20520, wake_time := ''08:15'' \<rparr>"


definition hrvSeries :: "real list \<Rightarrow> HRVData list" where
  "hrvSeries vs = map (\<lambda>v. \<lparr> hrv_date = 0, hrv_value = v, category = categorize v \<rparr>) vs"

definition night :: "real \<Rightarrow> SleepData" where
  "night d = \<lparr> sleep_date = 0, duration_hours = d, deep_sleep_hours = 0, rem_sleep_hours = 0,
               sleep_score = 0, bedtime = ''23:00'', wake_time = ''07:00'' \<rparr>"


section \<open>The scanner and the root marker\<close>

lemma str_includes_iff: "str_includes sub s \<longleftrightarrow> (\<exists>pre post. s = pre @ sub @ post)"
proof (induction s)
  case Nil
  then show ?case by auto
next
  case (Cons c cs)
  show ?case
  proof
    assume "str_includes sub (c # cs)"
    then consider "prefix sub (c # cs)" | "str_includes sub cs" by auto
    then show "\<exists>pre post. c # cs = pre @ sub @ post"
    proof cases
      case 1
      then obtain post where "c # cs = sub @ post" by (auto simp: prefix_def)
      then have "c # cs = [] @ sub @ post" by simp
      then show ?thesis by blast
    next
      case 2
      with Cons.IH obtain pre post where "cs = pre @ sub @ post" by blast
      then have "c # cs = (c # pre) @ sub @ post" by simp
      then show ?thesis by blast
    qed
  next
    assume "\<exists>pre post. c # cs = pre @ sub @ post"
    then obtain pre post where eq: "c # cs = pre @ sub @ post" by blast
    show "str_includes sub (c # cs)"
    proof (cases pre)
      case Nil
      with eq have "prefix sub (c # cs)" by (simp add: prefix_def)
      then show ?thesis by simp
    next
      case (Cons p ps)
      with eq have "cs = ps @ sub @ post" by simp
      with Cons.IH have "str_includes sub cs" by blast
      then show ?thesis by simp
    qed
  qed
qed

text \<open>
  Claim C9. The scanner fails with the malformed-import error exactly when the text
  \<open><HealthData\<close> occurs nowhere in the input, and returns a result exactly when it occurs;
  the document \<open><NotHealthData></NotHealthData>\<close> is rejected with that error.
\<close>

theorem scan_rejects_iff_root_absent:
  "(parseAppleHealthXML x =
      Inl (MalformedImport ''Not a valid Apple Health export - missing HealthData root element''))
      = (\<not> (\<exists>pre post. x = pre @ ''<HealthData'' @ post))
   \<and> (\<exists>r. parseAppleHealthXML x = Inr r) = (\<exists>pre post. x = pre @ ''<HealthData'' @ post)
   \<and> parseAppleHealthXML ''<NotHealthData></NotHealthData>'' =
        Inl (MalformedImport ''Not a valid Apple Health export - missing HealthData root element'')"
proof -
  have a: "str_includes ''<HealthData'' x = (\<exists>pre post. x = pre @ ''<HealthData'' @ post)"
    by (rule str_includes_iff)
  have b: "\<not> str_includes ''<HealthData'' ''<NotHealthData></NotHealthData>''"
    by simp
  show ?thesis
    unfolding a [symmetric]
    using b by (simp add: parseAppleHealthXML_def Let_def)
qed

theorem scan_rejects_iff_root_absent_witness:
  "(\<exists>r. parseAppleHealthXML ''<HealthData>'' = Inr r)
   \<and> parseAppleHealthXML ''<Health>'' =
        Inl (MalformedImport ''Not a valid Apple Health export - missing HealthData root element'')"
proof -
  have "''<HealthData>'' = [] @ ''<HealthData'' @ ''>''" by simp
  then have p: "\<exists>pre post. ''<HealthData>'' = pre @ ''<HealthData'' @ post" by blast
  have "\<not> str_includes ''<HealthData'' ''<Health>''" by simp
  then have n: "\<not> (\<exists>pre post. ''<Health>'' = pre @ ''<HealthData'' @ post)"
    using str_includes_iff [of "''<HealthData''" "''<Health>''"] by blast
  from p n scan_rejects_iff_root_absent [of "''<HealthData>''"]
    scan_rejects_iff_root_absent [of "''<Health>''"]
  show ?thesis by blast
qed

section \<open>The scanner on the two-record document\<close>

lemma specVector_root: "str_includes ''<HealthData'' specVector"
  unfolding specVector_def by simp

lemma specVector_records: "matchTags ''<Record'' specVector = [specRecord1, specRecord2]"
  unfolding specVector_def specRecord1_def specRecord2_def by (simp add: Let_def)

lemma specVector_workouts: "matchTags ''<Workout'' specVector = []"
  unfolding specVector_def by (simp add: Let_def)

lemma specVector_dates:
  "matchAttrAll ''startDate=\"'' specVector =
     [''startDate=\"2024-01-01 08:00:00 +0000\"'', ''startDate=\"2024-01-03 08:00:00 +0000\"'']"
  unfolding specVector_def by (simp add: Let_def)

lemma specRecord_types:
  "matchAttr ''type=\"'' specRecord1 = Some ''HKQuantityTypeIdentifierHeartRateVariabilitySDNN''"
  "matchAttr ''type=\"'' specRecord2 = Some ''HKCategoryTypeIdentifierSleepAnalysis''"
  unfolding specRecord1_def specRecord2_def by (simp_all add: Let_def)

lemma simplifyType_hrv:
  "simplifyType ''HKQuantityTypeIdentifierHeartRateVariabilitySDNN'' =
     ''Heart Rate Variability S D N N''"
  by (simp add: simplifyType_def trim_def spaceBeforeCapitals_def matchHKPrefix_def isLetter_def
      isUpper_def isSpace_def Let_def upt_rec)

lemma simplifyType_sleep:
  "simplifyType ''HKCategoryTypeIdentifierSleepAnalysis'' = ''Sleep Analysis''"
  by (simp add: simplifyType_def trim_def spaceBeforeCapitals_def matchHKPrefix_def isLetter_def
      isUpper_def isSpace_def Let_def upt_rec)

lemma specVector_date_values:
  "List.map_filter (matchAttr ''startDate=\"'')
     [''startDate=\"2024-01-01 08:00:00 +0000\"'', ''startDate=\"2024-01-03 08:00:00 +0000\"''] =
     [''2024-01-01 08:00:00 +0000'', ''2024-01-03 08:00:00 +0000'']"
  by (simp add: List.map_filter_def Let_def)

lemma specVector_dates_sorted:
  "sort [''2024-01-01 08:00:00 +0000'', ''2024-01-03 08:00:00 +0000''] =
     [''2024-01-01 08:00:00 +0000'', ''2024-01-03 08:00:00 +0000'']"
  by (simp add: less_eq_list_code)

lemma specVector_types_sorted:
  "sort [''Heart Rate Variability S D N N'', ''Sleep Analysis''] =
     [''Heart Rate Variability S D N N'', ''Sleep Analysis'']"
  by (simp add: less_eq_list_code)

text \<open>
  In what \<open>spaceBeforeCapitals\<close> returns, every capital letter follows a space, and
  trimming keeps that. The label \<open>Heart Rate Variability SDNN\<close> has capitals in a row, so
  no record type is ever simplified to it, and every document the scanner accepts gets the
  warning that HRV data was not found.
\<close>

lemma isUpper_space [simp]: "\<not> isUpper (CHR '' '')"
  by (simp add: isUpper_def)

lemma spaced_hd: "spaceBeforeCapitals s \<noteq> [] \<Longrightarrow> \<not> isUpper (hd (spaceBeforeCapitals s))"
  by (cases s) (auto simp: spaceBeforeCapitals_def)

lemma spaced_Cons:
  "spaceBeforeCapitals (c # cs) =
     (if isUpper c then [CHR '' '', c] else [c]) @ spaceBeforeCapitals cs"
  by (simp add: spaceBeforeCapitals_def)

lemma spaced_successively:
  "successively (\<lambda>a b. isUpper b \<longrightarrow> a = CHR '' '') (spaceBeforeCapitals s)"
proof (induction s)
  case Nil
  then show ?case by (simp add: spaceBeforeCapitals_def)
next
  case (Cons c cs)
  then show ?case
    using spaced_hd [of cs]
    by (auto simp: spaced_Cons successively_Cons)
qed

lemma successively_dropWhile:
  "successively P xs \<Longrightarrow> successively P (dropWhile p xs)"
proof -
  assume "successively P xs"
  then have "successively P (takeWhile p xs @ dropWhile p xs)" by simp
  then show ?thesis by (simp only: successively_append_iff)
qed

lemma trim_successively:
  "successively P s \<Longrightarrow> successively P (trim s)"
  by (simp add: trim_def successively_dropWhile)

lemma hrvLabel_not_spaced:
  "\<not> successively (\<lambda>a b. isUpper b \<longrightarrow> a = CHR '' '') hrvLabel"
  by (simp add: hrvLabel_def isUpper_def)

lemma simplifyType_not_hrvLabel: "simplifyType t \<noteq> hrvLabel"
  using trim_successively [OF spaced_successively, of "stripHKTypeIdentifier t"]
    hrvLabel_not_spaced
  by (auto simp: simplifyType_def)

lemma addRecordType_no_hrvLabel:
  "hrvLabel \<notin> set types \<Longrightarrow> hrvLabel \<notin> set (foldl addRecordType types recs)"
proof (induction recs arbitrary: types)
  case Nil
  then show ?case by simp
next
  case (Cons r rs)
  have "hrvLabel \<notin> set (addRecordType types r)"
    using Cons.prems simplifyType_not_hrvLabel [symmetric] simplifyType_not_hrvLabel
    by (auto simp: addRecordType_def setAdd_def split: option.splits)
  then show ?case by (simp add: Cons.IH)
qed

lemma hrv_warning_always:
  "parseAppleHealthXML x = Inr r \<Longrightarrow> hrvWarning \<in> set (warnings r)"
  using addRecordType_no_hrvLabel [of "[]" "take 1000 (matchTags ''<Record'' x)"]
  by (auto simp: parseAppleHealthXML_def Let_def split: if_splits)

text \<open>
  Claim C1. On the two-record document the scanner counts 2 records, reports the date
  range 2024-01-01 to 2024-01-03 and ends its warnings with the privacy notice, without
  the sleep warning. The first label, however, comes out as
  \<open>Heart Rate Variability S D N N\<close>: the space is put in front of every capital letter,
  those of the acronym too. The scanner then looks for \<open>Heart Rate Variability SDNN\<close>,
  does not find it, and adds the warning that HRV data was not found.
\<close>

theorem scan_spec_vector:
  "parseAppleHealthXML specVector =
     Inr \<lparr> recordCount = 2,
           dataTypes = [''Heart Rate Variability S D N N'', ''Sleep Analysis''],
           dateRange = \<lparr> range_start = ''2024-01-01'', range_end = ''2024-01-03'' \<rparr>,
           warnings = [''HRV data not found in export'',
             ''NOTE: This is a parser demo - no personal health data is stored or transmitted''] \<rparr>"
  by (simp add: parseAppleHealthXML_def specVector_root specVector_records specVector_workouts
      specVector_dates specRecord_types simplifyType_hrv simplifyType_sleep
      specVector_date_values specVector_dates_sorted specVector_types_sorted
      addRecordType_def setAdd_def firstOf_def lastOf_def dayOf_def beforeSpace_def
      hrvLabel_def sleepLabel_def hrvWarning_def privacyNotice_def
      del: sort_key_simps)

section \<open>Rounding to a double\<close>

subsection \<open>Powers of two and binades\<close>

lemma pow2_powr: "pow2 e = 2 powr (of_int e)"
  by (simp add: pow2_def powr_real_of_int inverse_eq_divide)

lemma pow2_pos [simp]: "0 < pow2 e"
  by (simp add: pow2_powr)

lemma pow2_nonneg [simp]: "0 \<le> pow2 e"
  using pow2_pos [of e] by linarith

lemma pow2_nonzero [simp]: "pow2 e \<noteq> 0"
  using pow2_pos [of e] by linarith

lemma pow2_add: "pow2 (a + b) = pow2 a * pow2 b"
  by (simp add: pow2_powr powr_add)

lemma pow2_mono: "a \<le> b \<Longrightarrow> pow2 a \<le> pow2 b"
  by (simp add: pow2_powr)

lemma pow2_less_iff [simp]: "pow2 a < pow2 b \<longleftrightarrow> a < b"
  by (simp add: pow2_powr)

lemma pow2_le_iff [simp]: "pow2 a \<le> pow2 b \<longleftrightarrow> a \<le> b"
  by (simp add: pow2_powr)

lemma pow2_nat: "0 \<le> e \<Longrightarrow> pow2 e = 2 ^ nat e"
  by (simp add: pow2_def)

lemma binade_bounds:
  assumes "0 < a"
  shows "pow2 (binade a) \<le> a" and "a < pow2 (binade a + 1)"
proof -
  show "pow2 (binade a) \<le> a"
  proof (cases "1 \<le> a")
    case True
    define n where "n = \<lfloor>a\<rfloor>"
    have n: "0 < n" using True by (simp add: n_def)
    from bitlen_bounds [OF n] have "2 ^ nat (bitlen n - 1) \<le> n" by simp
    then have "(2::real) ^ nat (bitlen n - 1) \<le> of_int n"
      by (metis of_int_le_iff of_int_numeral of_int_power)
    also have "\<dots> \<le> a" by (simp add: n_def)
    finally have "2 ^ nat (bitlen n - 1) \<le> a" .
    moreover have "1 \<le> bitlen n" using n by (simp add: bitlen_alt_def)
    ultimately show ?thesis using True by (simp add: binade_def n_def [symmetric] pow2_nat)
  next
    case False
    define y where "y = 1 / a"
    define n where "n = \<lceil>y\<rceil> - 1"
    have y: "1 < y" using False assms by (simp add: y_def)
    then have n: "0 < n" unfolding n_def by linarith
    have ny: "y \<le> of_int n + 1" unfolding n_def by linarith
    from bitlen_bounds [OF n] have "n < 2 ^ nat (bitlen n)" by simp
    then have "n + 1 \<le> 2 ^ nat (bitlen n)" by simp
    then have "(of_int (n + 1) :: real) \<le> 2 ^ nat (bitlen n)"
      by (metis of_int_le_iff of_int_numeral of_int_power)
    with ny have "y \<le> 2 ^ nat (bitlen n)" by linarith
    then have "1 / 2 ^ nat (bitlen n) \<le> a"
      using assms by (simp add: y_def field_simps)
    moreover have "0 \<le> bitlen n" by (rule bitlen_nonneg)
    ultimately show ?thesis using False
      by (auto simp add: binade_def y_def [symmetric] n_def [symmetric] pow2_def bitlen_eq_zero_iff)
  qed
  show "a < pow2 (binade a + 1)"
  proof (cases "1 \<le> a")
    case True
    define n where "n = \<lfloor>a\<rfloor>"
    have n: "0 < n" using True by (simp add: n_def)
    from bitlen_bounds [OF n] have "n < 2 ^ nat (bitlen n)" by simp
    then have "n + 1 \<le> 2 ^ nat (bitlen n)" by simp
    then have "(of_int (n + 1) :: real) \<le> 2 ^ nat (bitlen n)"
      by (metis of_int_le_iff of_int_numeral of_int_power)
    moreover have "a < of_int (n + 1)" unfolding n_def by linarith
    ultimately have "a < 2 ^ nat (bitlen n)" by linarith
    moreover have "0 \<le> bitlen n" by (rule bitlen_nonneg)
    ultimately show ?thesis using True by (simp add: binade_def n_def [symmetric] pow2_nat)
  next
    case False
    define y where "y = 1 / a"
    define n where "n = \<lceil>y\<rceil> - 1"
    have y: "1 < y" using False assms by (simp add: y_def)
    then have n: "0 < n" unfolding n_def by linarith
    have ny: "of_int n < y" unfolding n_def by linarith
    have b1: "1 \<le> bitlen n" using n by (simp add: bitlen_alt_def)
    from bitlen_bounds [OF n] have "2 ^ nat (bitlen n - 1) \<le> n" by simp
    then have "(2::real) ^ nat (bitlen n - 1) \<le> of_int n"
      by (metis of_int_le_iff of_int_numeral of_int_power)
    with ny have "2 ^ nat (bitlen n - 1) < y" by linarith
    then have "a < 1 / 2 ^ nat (bitlen n - 1)"
      using assms by (simp add: y_def field_simps)
    moreover have "pow2 (- bitlen n + 1) = 1 / 2 ^ nat (bitlen n - 1)"
      using b1 by (auto simp: pow2_def)
    ultimately show ?thesis using False
      by (simp add: binade_def y_def [symmetric] n_def [symmetric])
  qed
qed

lemma binade_unique:
  assumes "pow2 e \<le> a" and "a < pow2 (e + 1)"
  shows "binade a = e"
proof -
  have a: "0 < a" using assms(1) pow2_pos [of e] by linarith
  have "pow2 (binade a) < pow2 (e + 1)"
    using binade_bounds(1) [OF a] assms(2) by linarith
  moreover have "pow2 e < pow2 (binade a + 1)"
    using binade_bounds(2) [OF a] assms(1) by linarith
  ultimately show ?thesis by simp
qed

lemma binade_mono:
  assumes "0 < a" and "a \<le> b"
  shows "binade a \<le> binade b"
proof -
  have "pow2 (binade a) < pow2 (binade b + 1)"
    using binade_bounds(1) [OF assms(1)] binade_bounds(2) [of b] assms by linarith
  then show ?thesis by simp
qed


lemma exponent_ge: "- 1022 \<le> exponent x"
  by (simp add: exponent_def)

lemma exponent_minus [simp]: "exponent (- x) = exponent x"
  by (simp add: exponent_def)

lemma ulp_pos [simp]: "0 < ulp x"
  by (simp add: ulp_def)

lemma ulp_nonneg [simp]: "0 \<le> ulp x"
  by (simp add: ulp_def)

lemma ulp_nonzero [simp]: "ulp x \<noteq> 0"
  by (simp add: ulp_def)

lemma ulp_scale:
  "ulp x * 2 ^ 53 = pow2 (exponent x + 1)" "ulp x * 2 ^ 52 = pow2 (exponent x)"
proof -
  have "pow2 (exponent x - 52) * pow2 53 = pow2 (exponent x + 1)"
    "pow2 (exponent x - 52) * pow2 52 = pow2 (exponent x)"
    by (simp_all add: pow2_add [symmetric] add.commute)
  then show "ulp x * 2 ^ 53 = pow2 (exponent x + 1)" "ulp x * 2 ^ 52 = pow2 (exponent x)"
    by (simp_all add: ulp_def pow2_def)
qed

lemma ulp_minus [simp]: "ulp (- x) = ulp x"
  by (simp add: ulp_def)

lemma exponent_in_binade:
  assumes "pow2 e \<le> \<bar>x\<bar>" and "\<bar>x\<bar> < pow2 (e + 1)" and "- 1022 \<le> e"
  shows "exponent x = e"
proof -
  have "0 < pow2 e" by simp
  with assms(1) have "0 < \<bar>x\<bar>" by linarith
  then have "x \<noteq> 0" by simp
  then show ?thesis
    using binade_unique [OF assms(1,2)] assms(3) by (simp add: exponent_def)
qed

lemma exponent_le:
  assumes "\<bar>x\<bar> < pow2 (e + 1)" and "- 1022 \<le> e"
  shows "exponent x \<le> e"
proof (cases "x = 0")
  case True
  then show ?thesis using assms(2) by (simp add: exponent_def)
next
  case False
  then have "0 < \<bar>x\<bar>" by simp
  then have "pow2 (binade \<bar>x\<bar>) < pow2 (e + 1)"
    using binade_bounds(1) [of "\<bar>x\<bar>"] assms(1) by linarith
  then have "binade \<bar>x\<bar> \<le> e" by simp
  then show ?thesis using assms(2) False by (simp add: exponent_def)
qed

lemma exponent_upper: "\<bar>x\<bar> < pow2 (exponent x + 1)"
proof (cases "x = 0")
  case True
  then show ?thesis by simp
next
  case False
  then have "0 < \<bar>x\<bar>" by simp
  then have "\<bar>x\<bar> < pow2 (binade \<bar>x\<bar> + 1)" by (rule binade_bounds(2))
  also have "\<dots> \<le> pow2 (exponent x + 1)" using False by (simp add: exponent_def)
  finally show ?thesis .
qed

lemma exponent_lower: "- 1022 < exponent x \<Longrightarrow> pow2 (exponent x) \<le> \<bar>x\<bar>"
proof -
  assume a: "- 1022 < exponent x"
  then have x: "x \<noteq> 0" by (auto simp: exponent_def)
  with a have "exponent x = binade \<bar>x\<bar>" by (simp add: exponent_def max_def split: if_splits)
  then show ?thesis using binade_bounds(1) [of "\<bar>x\<bar>"] x by simp
qed

lemma exponent_mono:
  assumes "\<bar>x\<bar> \<le> \<bar>y\<bar>"
  shows "exponent x \<le> exponent y"
proof -
  have "\<bar>x\<bar> < pow2 (exponent y + 1)" using exponent_upper [of y] assms by linarith
  then show ?thesis by (rule exponent_le) (rule exponent_ge)
qed

subsection \<open>Rounding to the nearest integer, ties to even\<close>

lemma roundEven_of_int [simp]: "roundEven (of_int n) = n"
  by (simp add: roundEven_def)

lemma roundEven_zero [simp]: "roundEven 0 = 0"
  using roundEven_of_int [of 0] by simp

lemma roundEven_floor: "\<lfloor>y\<rfloor> \<le> roundEven y" "roundEven y \<le> \<lfloor>y\<rfloor> + 1"
  by (simp_all add: roundEven_def Let_def)



lemma roundEven_tie:
  "roundEven (of_int k + 1 / 2) = (if even k then k else k + 1)"
proof -
  have "\<lfloor>of_int k + (1 / 2 :: real)\<rfloor> = k" by linarith
  then show ?thesis by (simp add: roundEven_def Let_def)
qed

lemma roundEven_mono:
  assumes "y \<le> z"
  shows "roundEven y \<le> roundEven z"
proof (cases "\<lfloor>y\<rfloor> = \<lfloor>z\<rfloor>")
  case True
  then show ?thesis using assms by (auto simp: roundEven_def Let_def)
next
  case False
  then have "\<lfloor>y\<rfloor> < \<lfloor>z\<rfloor>" using floor_mono [OF assms] by simp
  then have "\<lfloor>y\<rfloor> + 1 \<le> \<lfloor>z\<rfloor>" by simp
  then show ?thesis using roundEven_floor(2) [of y] roundEven_floor(1) [of z] by linarith
qed

lemma roundEven_minus: "roundEven (- y) = - roundEven y"
proof (cases "y = of_int \<lfloor>y\<rfloor>")
  case True
  have "roundEven (of_int (- \<lfloor>y\<rfloor>)) = - roundEven (of_int \<lfloor>y\<rfloor>)"
    by (simp only: roundEven_of_int)
  then have "roundEven (- of_int \<lfloor>y\<rfloor>) = - roundEven (of_int \<lfloor>y\<rfloor>)"
    by simp
  then show ?thesis using True by metis
next
  case False
  then have lt: "of_int \<lfloor>y\<rfloor> < y" by linarith
  have "y < of_int \<lfloor>y\<rfloor> + 1" by linarith
  with lt have f: "\<lfloor>- y\<rfloor> = - \<lfloor>y\<rfloor> - 1" by linarith
  show ?thesis
    unfolding roundEven_def Let_def f using lt by auto
qed

subsection \<open>Rounding to a double\<close>

lemma fl_zero [simp]: "fl 0 = 0"
  by (simp add: fl_def)

lemma fl_minus: "fl (- x) = - fl x"
  by (simp add: fl_def roundEven_minus)

lemma fl_nonneg: "0 \<le> x \<Longrightarrow> 0 \<le> fl x"
proof -
  assume "0 \<le> x"
  then have "0 \<le> x / ulp x" by simp
  then have "roundEven 0 \<le> roundEven (x / ulp x)" by (rule roundEven_mono)
  then show ?thesis by (simp add: fl_def)
qed


lemma fl_in_binade:
  assumes "pow2 e \<le> \<bar>x\<bar>" and "\<bar>x\<bar> < pow2 (e + 1)" and "- 1022 \<le> e"
  shows "fl x = pow2 (e - 52) * of_int (roundEven (x / pow2 (e - 52)))"
  by (simp add: fl_def ulp_def exponent_in_binade [OF assms])

text \<open>A number \<open>k * 2^q\<close> with \<open>|k| \<le> 2^53\<close> and \<open>q \<ge> -1074\<close> is a double.\<close>

lemma fl_exact:
  assumes "\<bar>k\<bar> \<le> 2 ^ 53" and "- 1074 \<le> q"
  shows "fl (of_int k * pow2 q) = of_int k * pow2 q"
proof -
  define x where "x = of_int k * pow2 q"
  have ax: "\<bar>x\<bar> = of_int \<bar>k\<bar> * pow2 q"
    by (simp add: x_def abs_mult)
  have "exponent x \<le> q + 53"
  proof (rule exponent_le)
    have "of_int \<bar>k\<bar> \<le> (2::real) ^ 53" using assms(1)
      by (metis of_int_le_iff of_int_numeral of_int_power)
    then have "\<bar>x\<bar> \<le> 2 ^ 53 * pow2 q" unfolding ax
      by (intro mult_right_mono) simp_all
    also have "\<dots> = pow2 (q + 53)" by (simp add: pow2_add pow2_nat)
    also have "\<dots> < pow2 (q + 53 + 1)" by simp
    finally show "\<bar>x\<bar> < pow2 (q + 53 + 1)" .
    show "- 1022 \<le> q + 53" using assms(2) by simp
  qed
  then consider "exponent x \<le> q + 52" | "exponent x = q + 53" by linarith
  then show "fl x = x"
  proof cases
    case 1
    define j where "j = q + 52 - exponent x"
    have j: "0 \<le> j" using 1 by (simp add: j_def)
    have "pow2 q = pow2 (exponent x - 52) * pow2 j"
      by (simp add: pow2_add [symmetric] j_def)
    then have "x = ulp x * (of_int k * pow2 j)"
      by (simp add: x_def ulp_def)
    then have "x / ulp x = ulp x * (of_int k * pow2 j) / ulp x" by simp
    then have "x / ulp x = of_int k * pow2 j"
      by (simp only: nonzero_mult_div_cancel_left [OF ulp_nonzero])
    also have "\<dots> = of_int (k * 2 ^ nat j)" using j by (simp add: pow2_nat)
    finally have "roundEven (x / ulp x) = k * 2 ^ nat j" by (simp only: roundEven_of_int)
    then have "fl x = ulp x * (of_int k * pow2 j)" using j by (simp add: fl_def pow2_nat)
    also have "\<dots> = x"
      by (simp add: x_def ulp_def j_def pow2_add [symmetric] mult.left_commute)
    finally show ?thesis .
  next
    case 2
    then have "- 1022 < exponent x" using assms(2) by simp
    then have "pow2 (exponent x) \<le> \<bar>x\<bar>" by (rule exponent_lower)
    then have "pow2 53 * pow2 q \<le> of_int \<bar>k\<bar> * pow2 q"
      unfolding ax 2 by (simp add: pow2_add mult.commute)
    then have "pow2 53 \<le> of_int \<bar>k\<bar>" by simp
    then have "(2::real) ^ 53 \<le> of_int \<bar>k\<bar>" by (simp add: pow2_nat)
    then have "2 ^ 53 \<le> \<bar>k\<bar>" by (metis of_int_le_iff of_int_numeral of_int_power)
    with assms(1) have k: "\<bar>k\<bar> = 2 ^ 53" by simp
    have "ulp x = pow2 (q + 1)" by (simp add: ulp_def 2 add.commute)
    then have "x / ulp x = of_int k * (pow2 q / pow2 (q + 1))"
      by (simp add: x_def)
    also have "pow2 q / pow2 (q + 1) = 1 / 2" by (simp add: pow2_add pow2_nat)
    finally have xu: "x / ulp x = of_int k / 2" by simp
    from k have "k = 2 ^ 53 \<or> k = - (2 ^ 53)" by linarith
    then have "of_int k / (2::real) = of_int (k div 2)" by auto
    with xu have "roundEven (x / ulp x) = k div 2" by (simp only: roundEven_of_int)
    then have "fl x = ulp x * (x / ulp x)" using xu \<open>of_int k / (2::real) = of_int (k div 2)\<close>
      by (simp add: fl_def)
    then show ?thesis by simp
  qed
qed

lemma fl_of_int: "\<bar>n\<bar> \<le> 2 ^ 53 \<Longrightarrow> fl (of_int n) = of_int n"
  using fl_exact [of n 0] by (simp add: pow2_def)



lemma fl_mono_pos:
  assumes "0 \<le> x" and "x \<le> y"
  shows "fl x \<le> fl y"
proof -
  have "exponent x \<le> exponent y" using assms by (intro exponent_mono) simp
  then consider "exponent x = exponent y" | "exponent x < exponent y" by linarith
  then show ?thesis
  proof cases
    case 1
    then have u: "ulp x = ulp y" by (simp add: ulp_def)
    have "x / ulp y \<le> y / ulp y" using assms(2) by (simp add: divide_right_mono)
    then have "roundEven (x / ulp y) \<le> roundEven (y / ulp y)" by (rule roundEven_mono)
    then show ?thesis by (simp add: fl_def u)
  next
    case 2
    have "\<bar>x\<bar> < pow2 (exponent x + 1)" by (rule exponent_upper)
    also have "\<dots> = ulp x * 2 ^ 53"
      by (simp only: ulp_scale)
    finally have "x / ulp x \<le> of_int (2 ^ 53)" using assms(1) by (simp add: field_simps)
    then have "roundEven (x / ulp x) \<le> roundEven (of_int (2 ^ 53))" by (rule roundEven_mono)
    then have "(of_int (roundEven (x / ulp x)) :: real) \<le> 2 ^ 53"
      unfolding roundEven_of_int by (metis of_int_le_iff of_int_numeral of_int_power)
    then have "fl x \<le> ulp x * 2 ^ 53" by (simp add: fl_def)
    also have "\<dots> = pow2 (exponent x + 1)"
      by (simp only: ulp_scale)
    also have "\<dots> \<le> pow2 (exponent y)" using 2 by simp
    finally have a: "fl x \<le> pow2 (exponent y)" .
    have "- 1022 < exponent y" using 2 exponent_ge [of x] by linarith
    then have "pow2 (exponent y) \<le> \<bar>y\<bar>" by (rule exponent_lower)
    then have "ulp y * 2 ^ 52 \<le> y" using assms
      unfolding ulp_scale by simp
    then have "of_int (2 ^ 52) \<le> y / ulp y" by (simp add: field_simps)
    then have "roundEven (of_int (2 ^ 52)) \<le> roundEven (y / ulp y)" by (rule roundEven_mono)
    then have "(2::real) ^ 52 \<le> of_int (roundEven (y / ulp y))"
      unfolding roundEven_of_int by (metis of_int_le_iff of_int_numeral of_int_power)
    then have "ulp y * 2 ^ 52 \<le> fl y" by (simp add: fl_def)
    moreover have "ulp y * 2 ^ 52 = pow2 (exponent y)"
      by (simp only: ulp_scale)
    ultimately show ?thesis using a by linarith
  qed
qed

lemma fl_mono:
  assumes "x \<le> y"
  shows "fl x \<le> fl y"
proof (cases "0 \<le> x")
  case True
  then show ?thesis using assms by (rule fl_mono_pos)
next
  case False
  show ?thesis
  proof (cases "0 \<le> y")
    case True
    have "0 \<le> fl (- x)" using False by (intro fl_nonneg) simp
    then have "fl x \<le> 0" by (simp add: fl_minus)
    also have "0 \<le> fl y" using True by (rule fl_nonneg)
    finally show ?thesis .
  next
    case False
    then have "fl (- y) \<le> fl (- x)" using assms by (intro fl_mono_pos) simp_all
    then show ?thesis by (simp add: fl_minus)
  qed
qed

text \<open>
  A positive number that is not above the double \<open>a\<close> was not rounded from anything above
  \<open>a\<close>, and the other way round.
\<close>

lemma fl_le_double: "x \<le> a \<Longrightarrow> fl a = a \<Longrightarrow> fl x \<le> a"
  using fl_mono [of x a] by simp

lemma fl_ge_double: "a \<le> x \<Longrightarrow> fl a = a \<Longrightarrow> a \<le> fl x"
  using fl_mono [of a x] by simp



text \<open>Integers and half-integers of moderate size are doubles.\<close>

lemma fl_numeral [simp]: "(numeral n :: int) \<le> 2 ^ 53 \<Longrightarrow> fl (numeral n) = numeral n"
  using fl_of_int [of "numeral n"] by simp

lemma fl_neg_numeral [simp]:
  "(numeral n :: int) \<le> 2 ^ 53 \<Longrightarrow> fl (- numeral n) = - numeral n"
  by (simp add: fl_minus)

lemma fl_one [simp]: "fl 1 = 1"
  using fl_of_int [of 1] by simp

lemma fl_half_int: "\<bar>n\<bar> \<le> 2 ^ 53 \<Longrightarrow> fl (of_int n / 2) = of_int n / 2"
  using fl_exact [of n "- 1"] by (simp add: pow2_def)

lemma fl_halves [simp]:
  "fl (1 / 2) = 1 / 2" "fl (- (1 / 2)) = - (1 / 2)" "fl (13 / 2) = 13 / 2" "fl (5 / 2) = 5 / 2"
  using fl_half_int [of 1] fl_half_int [of "- 1"] fl_half_int [of 13] fl_half_int [of 5]
  by simp_all

section \<open>Numbers, the random source and the clock\<close>

lemma demoEnv_simps:
  "random demoEnv k = 1 / 2" "clock demoEnv k = 0" "zoneAt demoEnv t = 0"
  "zoneOfLocal demoEnv t = 0"
  by (simp_all add: demoEnv_def)

lemma nyEnv_simps:
  "random nyEnv k = 1 / 2" "clock nyEnv k = 1773185400000"
  "zoneAt nyEnv t = (if t < 1772953200000 then - 18000000 else - 14400000)"
  "zoneOfLocal nyEnv t = (if t < 1772938800000 then - 18000000 else - 14400000)"
  by (simp_all add: nyEnv_def)

lemma wellFormed_demoEnv: "wellFormed demoEnv"
  by (simp add: wellFormed_def demoEnv_def)


lemma random_range: "wellFormed e \<Longrightarrow> 0 \<le> random e k \<and> random e k < 1"
  by (simp add: wellFormed_def)


lemma js_round_mono: "x \<le> y \<Longrightarrow> js_round x \<le> js_round y"
  by (simp add: js_round_def floor_mono)

lemma js_round_of_int [simp]: "js_round (of_int n) = n"
  by (simp add: js_round_def)

lemma js_round_zero [simp]: "js_round 0 = 0"
  by (simp add: js_round_def)

lemma js_round_bounds:
  "of_int a \<le> x \<Longrightarrow> x \<le> of_int b \<Longrightarrow> a \<le> js_round x \<and> js_round x \<le> b"
  using js_round_mono [of "of_int a" x] js_round_mono [of x "of_int b"] by simp

lemma isoDay_shift: "isoDay (t - int i * msPerDay) = isoDay t - int i"
proof -
  have "(t + (- int i) * msPerDay) div msPerDay = - int i + t div msPerDay"
    by (rule div_mult_self1) (simp add: msPerDay_def)
  then show ?thesis by (simp add: isoDay_def)
qed


text \<open>While the zone keeps one offset, the two conversions are translations.\<close>

lemma steady_localTime:
  "steadyZone e c lo hi \<Longrightarrow> lo \<le> t \<Longrightarrow> t \<le> hi \<Longrightarrow> localTime e t = t + c"
  by (simp add: steadyZone_def localTime_def)

lemma steady_utcOf:
  "steadyZone e c lo hi \<Longrightarrow> lo \<le> t \<Longrightarrow> t \<le> hi \<Longrightarrow> utcOf e (t + c) = t"
  by (simp add: steadyZone_def utcOf_def)

lemma steady_daysBack:
  assumes "steadyZone e c lo hi" and "lo \<le> t - int i * msPerDay" and "t \<le> hi"
  shows "daysBack e t i = t - int i * msPerDay"
proof -
  have i: "0 \<le> int i * msPerDay" by (simp add: msPerDay_def)
  with assms(2) have "lo \<le> t" by linarith
  then have l: "localTime e t = t + c" using assms(1,3) by (intro steady_localTime)
  have "t - int i * msPerDay \<le> hi" using i assms(3) by linarith
  with assms(1,2) have "utcOf e (t - int i * msPerDay + c) = t - int i * msPerDay"
    by (intro steady_utcOf)
  then show ?thesis by (simp add: daysBack_def l algebra_simps)
qed


lemma steadyZone_demoEnv: "steadyZone demoEnv 0 lo hi"
  by (simp add: steadyZone_def demoEnv_def)
section \<open>The HRV generator\<close>



lemma hrvSample_range:
  assumes "wellFormed e"
  shows "category (fst (hrvSample e i w)) = Normal
       \<and> 35 \<le> hrv_value (fst (hrvSample e i w)) \<and> hrv_value (fst (hrvSample e i w)) \<le> 55"
proof -
  define r where "r = random e (nrandom w)"
  define a where "a = fl (r - 0.5)"
  define b where "b = fl (a * 20)"
  define c where "c = fl (45 + b)"
  define v where "v = max 20 (min 80 c)"
  have r: "0 \<le> r" "r < 1" using random_range [OF assms] by (simp_all add: r_def)
  have a: "- (1 / 2) \<le> a" "a \<le> 1 / 2"
    unfolding a_def using r by (intro fl_ge_double fl_le_double; simp)+
  have b: "- 10 \<le> b" "b \<le> 10"
    unfolding b_def using a by (intro fl_ge_double fl_le_double; simp)+
  have c: "35 \<le> c" "c \<le> 55"
    unfolding c_def using b by (intro fl_ge_double fl_le_double; simp)+
  then have v: "35 \<le> v" "v \<le> 55" by (simp_all add: v_def)
  have "(35::int) \<le> js_round v \<and> js_round v \<le> 55"
    using js_round_bounds [of 35 v 55] v by simp
  then have "(35::real) \<le> of_int (js_round v)" "of_int (js_round v) \<le> (55::real)"
    by linarith+
  moreover have "fst (hrvSample e i w) =
      \<lparr> hrv_date = isoDay (daysBack e (clock e (nclock w)) i),
        hrv_value = of_int (js_round v), category = categorize v \<rparr>"
    by (simp add: hrvSample_def Let_def split_beta newDate_def mathRandom_def v_def c_def b_def
        a_def r_def)
  ultimately show ?thesis using v by (simp add: categorize_def)
qed

lemma hrvLoop_Suc:
  "hrvLoop e (Suc i) w =
     (fst (hrvSample e i w) # fst (hrvLoop e i (snd (hrvSample e i w))),
      snd (hrvLoop e i (snd (hrvSample e i w))))"
  by (simp add: Let_def split_beta)

declare hrvLoop.simps(2) [simp del]

lemma hrvLoop_length: "length (fst (hrvLoop e n w)) = n"
  by (induction n arbitrary: w) (simp_all add: hrvLoop_Suc)

lemma hrvLoop_items:
  assumes "wellFormed e"
  shows "s \<in> set (fst (hrvLoop e n w)) \<Longrightarrow>
         category s = Normal \<and> 35 \<le> hrv_value s \<and> hrv_value s \<le> 55"
proof (induction n arbitrary: w)
  case 0
  then show ?case by simp
next
  case (Suc i)
  then consider "s = fst (hrvSample e i w)"
    | "s \<in> set (fst (hrvLoop e i (snd (hrvSample e i w))))"
    by (auto simp: hrvLoop_Suc)
  then show ?case
  proof cases
    case 1
    then show ?thesis using hrvSample_range [OF assms] by simp
  next
    case 2
    then show ?thesis by (rule Suc.IH)
  qed
qed







lemma demo_hrvSample:
  "fst (hrvSample demoEnv i w) = \<lparr>hrv_date = - int i, hrv_value = 45, category = Normal\<rparr>"
proof -
  have "daysBack demoEnv 0 i = 0 - int i * msPerDay"
    by (rule steady_daysBack [OF steadyZone_demoEnv [of "0 - int i * msPerDay" 0]]) simp_all
  then have "isoDay (daysBack demoEnv 0 i) = - int i"
    using isoDay_shift [of 0 i] by (simp add: isoDay_def)
  then show ?thesis
    by (simp add: hrvSample_def Let_def split_beta newDate_def mathRandom_def demoEnv_simps
        js_round_def categorize_def)
qed

lemma demo_hrv:
  "fst (generateMockHRV demoEnv 3 startWorld) =
     [\<lparr>hrv_date = - 2, hrv_value = 45, category = Normal\<rparr>,
      \<lparr>hrv_date = - 1, hrv_value = 45, category = Normal\<rparr>,
      \<lparr>hrv_date = 0, hrv_value = 45, category = Normal\<rparr>]"
  by (simp add: generateMockHRV_def numeral_3_eq_3 hrvLoop_Suc demo_hrvSample)

text \<open>
  Claim C6. For every sample the HRV generator produces, the category is low exactly
  when the value is below 30, high exactly when it is above 60 and normal otherwise, and
  the value lies in the range from 20 to 80. The rule that assigns the category gives
  every value exactly one of the three categories.
\<close>

theorem hrv_category_partition:
  assumes "wellFormed e" and "s \<in> set (fst (generateMockHRV e n w))"
  shows "(category s = Low \<longleftrightarrow> hrv_value s < 30)
       \<and> (category s = High \<longleftrightarrow> 60 < hrv_value s)
       \<and> (category s = Normal \<longleftrightarrow> 30 \<le> hrv_value s \<and> hrv_value s \<le> 60)
       \<and> 20 \<le> hrv_value s \<and> hrv_value s \<le> 80
       \<and> (categorize v = Low \<longleftrightarrow> v < 30)
       \<and> (categorize v = High \<longleftrightarrow> 60 < v)
       \<and> (categorize v = Normal \<longleftrightarrow> 30 \<le> v \<and> v \<le> 60)"
proof -
  from assms have "category s = Normal \<and> 35 \<le> hrv_value s \<and> hrv_value s \<le> 55"
    unfolding generateMockHRV_def by (intro hrvLoop_items)
  then show ?thesis by (simp add: categorize_def)
qed

theorem hrv_category_partition_witness:
  "wellFormed demoEnv
   \<and> \<lparr>hrv_date = 0, hrv_value = 45, category = Normal\<rparr>
       \<in> set (fst (generateMockHRV demoEnv 3 startWorld))
   \<and> categorize 45 = Normal \<and> categorize 29 = Low \<and> categorize 61 = High"
proof -
  have m: "\<lparr>hrv_date = 0, hrv_value = 45, category = Normal\<rparr>
            \<in> set (fst (generateMockHRV demoEnv 3 startWorld))"
    by (simp add: demo_hrv)
  from hrv_category_partition [OF wellFormed_demoEnv m, of 45]
    hrv_category_partition [OF wellFormed_demoEnv m, of 29]
    hrv_category_partition [OF wellFormed_demoEnv m, of 61]
  show ?thesis using wellFormed_demoEnv m by simp
qed

section \<open>The sleep generator\<close>



text \<open>The local \<^verbatim>\<open>duration\<close> lies between 6.5 and 9, and so does its rounding to a tenth.\<close>

lemma duration_range:
  assumes "0 \<le> r" and "r < 1"
  shows "13 / 2 \<le> fl (6.5 + fl (r * 2.5))" and "fl (6.5 + fl (r * 2.5)) \<le> 9"
proof -
  define a where "a = fl (r * 2.5)"
  have a: "0 \<le> a" "a \<le> 5 / 2"
    unfolding a_def using assms by (intro fl_nonneg fl_le_double; simp)+
  show "13 / 2 \<le> fl (6.5 + fl (r * 2.5))" and "fl (6.5 + fl (r * 2.5)) \<le> 9"
    unfolding a_def [symmetric] using a by (intro fl_ge_double fl_le_double; simp)+
qed

lemma tenths_range:
  assumes "13 / 2 \<le> d" and "d \<le> 9"
  shows "65 \<le> js_round (fl (d * 10))" and "js_round (fl (d * 10)) \<le> 90"
    and "13 / 2 \<le> fl (of_int (js_round (fl (d * 10))) / 10)"
    and "fl (of_int (js_round (fl (d * 10))) / 10) \<le> 9"
proof -
  define p where "p = fl (d * 10)"
  have p: "of_int 65 \<le> p" "p \<le> of_int 90"
    unfolding p_def using assms by (intro fl_ge_double fl_le_double; simp)+
  then have m: "65 \<le> js_round p \<and> js_round p \<le> 90" by (rule js_round_bounds)
  then show "65 \<le> js_round (fl (d * 10))" and "js_round (fl (d * 10)) \<le> 90"
    by (simp_all add: p_def)
  from m have "(65::real) \<le> of_int (js_round p)" "of_int (js_round p) \<le> (90::real)"
    by linarith+
  then show "13 / 2 \<le> fl (of_int (js_round (fl (d * 10))) / 10)"
    and "fl (of_int (js_round (fl (d * 10))) / 10) \<le> 9"
    unfolding p_def [symmetric] by (intro fl_ge_double fl_le_double; simp)+
qed

lemma sleepSample_duration:
  assumes "wellFormed e"
  shows "13 / 2 \<le> duration_hours (fst (sleepSample e i w))
       \<and> duration_hours (fst (sleepSample e i w)) \<le> 9"
proof -
  define r where "r = random e (nrandom w)"
  define d where "d = fl (6.5 + fl (r * 2.5))"
  have "0 \<le> r" "r < 1" using random_range [OF assms] by (simp_all add: r_def)
  then have "13 / 2 \<le> d" "d \<le> 9" unfolding d_def by (rule duration_range)+
  then have "13 / 2 \<le> fl (of_int (js_round (fl (d * 10))) / 10)"
    and "fl (of_int (js_round (fl (d * 10))) / 10) \<le> 9"
    by (rule tenths_range)+
  moreover have "duration_hours (fst (sleepSample e i w)) = fl (of_int (js_round (fl (d * 10))) / 10)"
    by (simp add: sleepSample_def Let_def split_beta newDate_def mathRandom_def d_def r_def)
  ultimately show ?thesis by simp
qed

lemma sleepLoop_Suc:
  "sleepLoop e (Suc i) w =
     (fst (sleepSample e i w) # fst (sleepLoop e i (snd (sleepSample e i w))),
      snd (sleepLoop e i (snd (sleepSample e i w))))"
  by (simp add: Let_def split_beta)

declare sleepLoop.simps(2) [simp del]

lemma sleepLoop_length: "length (fst (sleepLoop e n w)) = n"
  by (induction n arbitrary: w) (simp_all add: sleepLoop_Suc)

lemma sleepLoop_items:
  assumes "\<And>i w. P (fst (sleepSample e i w))"
  shows "s \<in> set (fst (sleepLoop e n w)) \<Longrightarrow> P s"
proof (induction n arbitrary: w)
  case 0
  then show ?case by simp
next
  case (Suc i)
  then show ?case using assms by (auto simp: sleepLoop_Suc)
qed






subsection \<open>Dates across the start of daylight saving time\<close>

lemma four: "(4::nat) = Suc (Suc (Suc (Suc 0)))"
  by simp

lemma ny_days:
  "isoDay (daysBack nyEnv 1773185400000 (Suc (Suc (Suc 0)))) = 20520"
  "isoDay (daysBack nyEnv 1773185400000 (Suc (Suc 0))) = 20520"
  "isoDay (daysBack nyEnv 1773185400000 (Suc 0)) = 20521"
  "isoDay (daysBack nyEnv 1773185400000 0) = 20522"
  by (simp_all add: daysBack_def localTime_def utcOf_def nyEnv_simps msPerDay_def isoDay_def)







section \<open>The generated night when every draw is one half\<close>

lemma half_fl_1: "fl (5 / 4) = 5 / 4"
  by (subst fl_in_binade [of 0]) (simp_all add: pow2_def roundEven_def Let_def)

lemma half_fl_2: "fl (31 / 4) = 31 / 4"
  by (subst fl_in_binade [of 2]) (simp_all add: pow2_def roundEven_def Let_def)

lemma half_fl_3: "fl (3 / 20) = 5404319552844595 / 36028797018963968"
  by (subst fl_in_binade [of "- 3"]) (simp_all add: pow2_def roundEven_def Let_def)

lemma half_fl_4: "fl (1 / 10) = 3602879701896397 / 36028797018963968"
  by (subst fl_in_binade [of "- 4"]) (simp_all add: pow2_def roundEven_def Let_def)

lemma half_fl_5: "fl (1 / 5) = 3602879701896397 / 18014398509481984"
  by (subst fl_in_binade [of "- 3"]) (simp_all add: pow2_def roundEven_def Let_def)

lemma half_fl_6: "fl (3602879701896397 / 72057594037927936) = 3602879701896397 / 72057594037927936"
  by (subst fl_in_binade [of "- 5"]) (simp_all add: pow2_def roundEven_def Let_def)

lemma half_fl_7: "fl (14411518807585587 / 72057594037927936) = 3602879701896397 / 18014398509481984"
  by (subst fl_in_binade [of "- 3"]) (simp_all add: pow2_def roundEven_def Let_def)

lemma half_fl_8: "fl (111689270758788307 / 72057594037927936) = 6980579422424269 / 4503599627370496"
  by (subst fl_in_binade [of 0]) (simp_all add: pow2_def roundEven_def Let_def)

lemma half_fl_9: "fl (34902897112121345 / 2251799813685248) = 31 / 2"
  by (subst fl_in_binade [of 3]) (simp_all add: pow2_def roundEven_def Let_def)

lemma half_fl_10: "fl (18014398509481985 / 72057594037927936) = 1 / 4"
  by (subst fl_in_binade [of "- 2"]) (simp_all add: pow2_def roundEven_def Let_def)

lemma half_fl_11: "fl (31 / 16) = 31 / 16"
  by (subst fl_in_binade [of 0]) (simp_all add: pow2_def roundEven_def Let_def)

lemma half_fl_12: "fl (155 / 8) = 155 / 8"
  by (subst fl_in_binade [of 4]) (simp_all add: pow2_def roundEven_def Let_def)

lemma half_fl_13: "fl (155 / 2) = 155 / 2"
  by (subst fl_in_binade [of 6]) (simp_all add: pow2_def roundEven_def Let_def)

lemma half_fl_14: "fl (3 / 2) = 3 / 2"
  by (subst fl_in_binade [of 0]) (simp_all add: pow2_def roundEven_def Let_def)

lemma half_fl_15: "fl (35 / 2) = 35 / 2"
  by (subst fl_in_binade [of 4]) (simp_all add: pow2_def roundEven_def Let_def)

lemma half_fl_16: "fl (39 / 5) = 8782019273372467 / 1125899906842624"
  by (subst fl_in_binade [of 2]) (simp_all add: pow2_def roundEven_def Let_def)

lemma half_fl_17: "fl (8 / 5) = 3602879701896397 / 2251799813685248"
  by (subst fl_in_binade [of 0]) (simp_all add: pow2_def roundEven_def Let_def)

lemma half_fl_18: "fl (19 / 10) = 4278419646001971 / 2251799813685248"
  by (subst fl_in_binade [of 0]) (simp_all add: pow2_def roundEven_def Let_def)

lemmas half_fl = half_fl_1 half_fl_2 half_fl_3 half_fl_4 half_fl_5 half_fl_6 half_fl_7 half_fl_8 half_fl_9 half_fl_10 half_fl_11 half_fl_12 half_fl_13 half_fl_14 half_fl_15 half_fl_16 half_fl_17 half_fl_18

lemma newDate_simps:
  "fst (newDate e w) = clock e (nclock w)"
  "nclock (snd (newDate e w)) = Suc (nclock w)"
  "nrandom (snd (newDate e w)) = nrandom w"
  by (simp_all add: newDate_def)

lemma mathRandom_simps:
  "fst (mathRandom e w) = random e (nrandom w)"
  "nclock (snd (mathRandom e w)) = nclock w"
  "nrandom (snd (mathRandom e w)) = Suc (nrandom w)"
  by (simp_all add: mathRandom_def)

lemma halves_sample:
  assumes "\<And>k. random e k = 1 / 2"
  shows "fst (sleepSample e i w) =
     \<lparr> sleep_date = isoDay (daysBack e (clock e (nclock w)) i),
       duration_hours = fl (78 / 10), deep_sleep_hours = fl (16 / 10),
       rem_sleep_hours = fl (19 / 10), sleep_score = 78,
       bedtime = timeString5 e (setHours e (daysBack e (clock e (nclock w)) i) 23 30),
       wake_time = timeString5 e (js_trunc (fl (of_int
         (setHours e (daysBack e (clock e (nclock w)) i) 23 30) + 27900000))) \<rparr>"
  by (simp add: sleepSample_def Let_def split_beta newDate_def mathRandom_def assms half_fl
      js_round_def)

lemma demo_bed: "setHours demoEnv (daysBack demoEnv 0 0) 23 30 = 84600000"
  by (simp add: setHours_def daysBack_def localTime_def utcOf_def demoEnv_simps msPerDay_def)

lemma demo_times:
  "timeString5 demoEnv 84600000 = ''23:30''"
  "timeString5 demoEnv 112500000 = ''07:15''"
  by (simp_all add: timeString5_def minuteOfDay_def localTime_def demoEnv_simps msPerDay_def
      hhmm_def pad2_def digit_def)

lemma demo_sample: "fst (sleepSample demoEnv 0 startWorld) = demoNight"
proof -
  have "isoDay (daysBack demoEnv 0 0) = 0"
    by (simp add: daysBack_def localTime_def utcOf_def demoEnv_simps isoDay_def)
  then show ?thesis
    by (simp add: halves_sample [of demoEnv] demoEnv_simps demo_bed js_trunc_def demo_times
        demoNight_def)
qed

lemma demo_sleep: "fst (generateMockSleep demoEnv (Suc 0) startWorld) = [demoNight]"
  by (simp add: generateMockSleep_def sleepLoop_Suc demo_sample)

lemma ny_beds:
  "setHours nyEnv (daysBack nyEnv 1773185400000 0) 23 30 = 1773199800000"
  "setHours nyEnv (daysBack nyEnv 1773185400000 (Suc (Suc (Suc 0)))) 23 30 = 1772944200000"
  by (simp_all add: setHours_def daysBack_def localTime_def utcOf_def nyEnv_simps msPerDay_def)

lemma ny_times:
  "timeString5 nyEnv 1773199800000 = ''23:30''"
  "timeString5 nyEnv 1773227700000 = ''07:15''"
  "timeString5 nyEnv 1772944200000 = ''23:30''"
  "timeString5 nyEnv 1772972100000 = ''08:15''"
  by (simp_all add: timeString5_def minuteOfDay_def localTime_def nyEnv_simps msPerDay_def
      hhmm_def pad2_def digit_def)



text \<open>
  The first of the four nights that \<open>nyEnv\<close> generates is the night in which the clocks
  go forward: bedtime 23:30, 7.75 hours of sleep, wake time 08:15.
\<close>

lemma ny_spring_sample: "fst (sleepSample nyEnv (Suc (Suc (Suc 0))) startWorld) = nySpringNight"
  by (simp add: halves_sample [of nyEnv] nyEnv_simps(1,2) ny_days ny_beds js_trunc_def ny_times
      nySpringNight_def demoNight_def)

lemma ny_spring_night: "hd (fst (generateMockSleep nyEnv 4 startWorld)) = nySpringNight"
  unfolding generateMockSleep_def four by (simp add: sleepLoop_Suc ny_spring_sample)

section \<open>Bedtime, duration and wake time\<close>

subsection \<open>The duration in milliseconds\<close>




subsection \<open>The clock times of the bedtime and of the wake time\<close>







subsection \<open>What the wake time depends on\<close>










section \<open>Status snapshot and alerts\<close>

lemma status_readings:
  assumes "wellFormed e"
  shows "35 \<le> hrv_current (hrv (fst (generateMockStatus e w)))
       \<and> hrv_current (hrv (fst (generateMockStatus e w))) \<le> 55
       \<and> 13 / 2 \<le> last_night_hours (sleep (fst (generateMockStatus e w)))
       \<and> 8500 \<le> steps (activity (fst (generateMockStatus e w)))
       \<and> alerts (fst (generateMockStatus e w)) = []"
proof -
  define w1 where "w1 = snd (newDate e w)"
  define hs where "hs = fst (hrvLoop e 7 w1)"
  define w2 where "w2 = snd (hrvLoop e 7 w1)"
  define ss where "ss = fst (sleepLoop e 7 w2)"
  define w3 where "w3 = snd (sleepLoop e 7 w2)"
  have "hs \<noteq> []" using hrvLoop_length [of e 7 w1] by (auto simp: hs_def)
  then have "last hs \<in> set (fst (hrvLoop e 7 w1))" by (simp add: hs_def)
  then have h: "35 \<le> hrv_value (last hs)" "hrv_value (last hs) \<le> 55"
    using hrvLoop_items [OF assms] by blast+
  have "ss \<noteq> []" using sleepLoop_length [of e 7 w2] by (auto simp: ss_def)
  then have "last ss \<in> set (fst (sleepLoop e 7 w2))" by (simp add: ss_def)
  then have s: "13 / 2 \<le> duration_hours (last ss)"
    using sleepLoop_items [of "\<lambda>s. 13 / 2 \<le> duration_hours s" e "last ss" 7 w2]
      sleepSample_duration [OF assms] by blast
  have "0 \<le> random e (nrandom w3)" using random_range [OF assms] by simp
  then have "0 \<le> fl (random e (nrandom w3) * 3000)" by (intro fl_nonneg) simp
  then have st: "0 \<le> \<lfloor>fl (random e (nrandom w3) * 3000)\<rfloor>" by simp
  have "hrv_current (hrv (fst (generateMockStatus e w))) = hrv_value (last hs)"
    "last_night_hours (sleep (fst (generateMockStatus e w))) = duration_hours (last ss)"
    "steps (activity (fst (generateMockStatus e w))) =
       8500 + \<lfloor>fl (random e (nrandom w3) * 3000)\<rfloor>"
    "alerts (fst (generateMockStatus e w)) =
       (if hrv_value (last hs) < 30 then [HRVLowAlert] else [])
       @ (if duration_hours (last ss) < 6 then [InsufficientSleepAlert] else [])"
    by (simp_all add: generateMockStatus_def generateMockHRV_def generateMockSleep_def
        Let_def split_beta mathRandom_def w1_def hs_def w2_def ss_def w3_def)
  with h s st show ?thesis by simp
qed

text \<open>
  Claim C4. For every random draw, the three evaluated thresholds (HRV, sleep duration,
  daily steps) all have status ok and the alert list of the status snapshot is empty: the
  current HRV lies between 35 and 55, last night's sleep is at least 6.5 hours and the
  steps are at least 8500.
\<close>

theorem no_alert_triggered:
  assumes "wellFormed e"
  shows "map status (fst (generateMockAlerts e w)) = [Ok, Ok, Ok]
       \<and> alerts (fst (generateMockStatus e w)) = []
       \<and> 35 \<le> hrv_current (hrv (fst (generateMockStatus e w)))
       \<and> hrv_current (hrv (fst (generateMockStatus e w))) \<le> 55
       \<and> 13 / 2 \<le> last_night_hours (sleep (fst (generateMockStatus e w)))
       \<and> 8500 \<le> steps (activity (fst (generateMockStatus e w)))
       \<and> (h \<in> set (fst (generateMockHRV e n1 w1)) \<longrightarrow> 35 \<le> hrv_value h \<and> hrv_value h \<le> 55)
       \<and> (s \<in> set (fst (generateMockSleep e n2 w2)) \<longrightarrow> 13 / 2 \<le> duration_hours s)"
proof -
  have "35 \<le> hrv_value h \<and> hrv_value h \<le> 55" if "h \<in> set (fst (generateMockHRV e n1 w1))"
    using hrvLoop_items [OF assms, of h n1 w1] that by (simp add: generateMockHRV_def)
  moreover have "13 / 2 \<le> duration_hours s" if "s \<in> set (fst (generateMockSleep e n2 w2))"
    using sleepLoop_items [of "\<lambda>s. 13 / 2 \<le> duration_hours s" e s n2 w2]
      sleepSample_duration [OF assms] that
    by (simp add: generateMockSleep_def)
  ultimately show ?thesis
    using status_readings [OF assms, of w]
    by (simp add: generateMockAlerts_def alertThresholds_def split_beta)
qed

theorem no_alert_triggered_witness:
  "wellFormed demoEnv \<and> map status (fst (generateMockAlerts demoEnv startWorld)) = [Ok, Ok, Ok]
   \<and> alerts (fst (generateMockStatus demoEnv startWorld)) = []
   \<and> \<lparr>hrv_date = 0, hrv_value = 45, category = Normal\<rparr>
       \<in> set (fst (generateMockHRV demoEnv 3 startWorld))
   \<and> (35::real) \<le> 45
   \<and> demoNight \<in> set (fst (generateMockSleep demoEnv 1 startWorld))
   \<and> 13 / 2 \<le> duration_hours demoNight"
  using no_alert_triggered [OF wellFormed_demoEnv,
      of startWorld "\<lparr>hrv_date = 0, hrv_value = 45, category = Normal\<rparr>" 3 startWorld
        demoNight 1 startWorld]
    wellFormed_demoEnv
  by (simp add: demo_sleep demo_hrv)



section \<open>Trend classification\<close>

lemma hrvSeries_values: "map hrv_value (hrvSeries vs) = vs"
  by (simp add: hrvSeries_def comp_def)

lemma firstThree_nth:
  assumes "3 \<le> length xs"
  shows "firstThree xs = [xs ! 0, xs ! 1, xs ! 2]"
proof -
  from assms obtain a b c rest where "xs = a # b # c # rest"
    by (cases xs; cases "tl xs"; cases "tl (tl xs)") auto
  then show ?thesis by (simp add: firstThree_def)
qed

lemma lastThree_nth:
  assumes "3 \<le> length xs"
  shows "lastThree xs =
           [xs ! (length xs - 3), xs ! (length xs - 2), xs ! (length xs - 1)]"
proof -
  define n where "n = length xs - 3"
  have len: "length xs = n + 3" using assms by (simp add: n_def)
  have "drop n xs = xs ! n # drop (Suc n) xs"
    using len by (intro Cons_nth_drop_Suc [symmetric]) simp
  also have "drop (Suc n) xs = xs ! Suc n # drop (Suc (Suc n)) xs"
    using len by (intro Cons_nth_drop_Suc [symmetric]) simp
  also have "drop (Suc (Suc n)) xs = xs ! Suc (Suc n) # drop (Suc (Suc (Suc n))) xs"
    using len by (intro Cons_nth_drop_Suc [symmetric]) simp
  also have "drop (Suc (Suc (Suc n))) xs = []" using len by simp
  finally have "drop n xs = [xs ! n, xs ! Suc n, xs ! Suc (Suc n)]" .
  moreover have "length xs - 2 = Suc n" "length xs - 1 = Suc (Suc n)" using len by simp_all
  ultimately show ?thesis by (simp add: lastThree_def n_def [symmetric])
qed

lemma window_means:
  assumes "3 \<le> length vs"
  shows "earlierMean vs = (vs ! 0 + vs ! 1 + vs ! 2) / 3"
    and "recentMean vs =
           (vs ! (length vs - 3) + vs ! (length vs - 2) + vs ! (length vs - 1)) / 3"
  by (simp_all add: earlierMean_def recentMean_def firstThree_nth [OF assms] lastThree_nth [OF assms])

text \<open>
  Claim C5. On the six values 10, 10, 10, 1, 1, 1 the trend is declining with change -9,
  the mean of the last three values (1) minus the mean of the first three (10); on six
  values 5 it is stable with change 0. Both hold for the HRV variant and for the variant
  of the sleep report, whose change is the local it classifies. On every series of at
  least three values the change is the mean of its last three values minus the mean of
  its first three.
\<close>

theorem trend_window_rule:
  assumes "map hrv_value d1 = [10, 10, 10, 1, 1, 1]"
    and "map hrv_value d2 = [5, 5, 5, 5, 5, 5]"
  shows "direction (analyzeHRVTrend d1) = Declining \<and> change (analyzeHRVTrend d1) = - 9
       \<and> calculateTrend [10, 10, 10, 1, 1, 1] = Declining
       \<and> recentMean [10, 10, 10, 1, 1, 1] = 1 \<and> earlierMean [10, 10, 10, 1, 1, 1] = 10
       \<and> windowChange [10, 10, 10, 1, 1, 1] = - 9
       \<and> direction (analyzeHRVTrend d2) = Stable \<and> change (analyzeHRVTrend d2) = 0
       \<and> calculateTrend [5, 5, 5, 5, 5, 5] = Stable
       \<and> windowChange [5, 5, 5, 5, 5, 5] = 0
       \<and> (3 \<le> length vs \<longrightarrow>
            windowChange vs =
              (vs ! (length vs - 3) + vs ! (length vs - 2) + vs ! (length vs - 1)) / 3
              - (vs ! 0 + vs ! 1 + vs ! 2) / 3)"
proof -
  have l1: "length d1 = 6" using arg_cong [OF assms(1), of length] by simp
  have l2: "length d2 = 6" using arg_cong [OF assms(2), of length] by simp
  have w1: "recentMean [10, 10, 10, 1, 1, 1] = 1" "earlierMean [10, 10, 10, 1, 1, 1] = 10"
    "windowChange [10, 10, 10, 1, 1, 1] = - 9"
    by (simp_all add: windowChange_def recentMean_def earlierMean_def lastThree_def firstThree_def)
  have w2: "windowChange [5, 5, 5, 5, 5, 5] = 0"
    by (simp add: windowChange_def recentMean_def earlierMean_def lastThree_def firstThree_def)
  have g: "windowChange vs =
              (vs ! (length vs - 3) + vs ! (length vs - 2) + vs ! (length vs - 1)) / 3
              - (vs ! 0 + vs ! 1 + vs ! 2) / 3" if "3 \<le> length vs"
    by (simp only: windowChange_def window_means [OF that])
  show ?thesis
    using g
    by (simp add: analyzeHRVTrend_def calculateTrend_def assms l1 l2 w1 w2 Let_def js_round_def)
qed

theorem trend_window_rule_witness:
  "map hrv_value (hrvSeries [10, 10, 10, 1, 1, 1]) = [10, 10, 10, 1, 1, 1]
   \<and> map hrv_value (hrvSeries [5, 5, 5, 5, 5, 5]) = [5, 5, 5, 5, 5, 5]
   \<and> direction (analyzeHRVTrend (hrvSeries [10, 10, 10, 1, 1, 1])) = Declining
   \<and> change (analyzeHRVTrend (hrvSeries [10, 10, 10, 1, 1, 1])) = - 9
   \<and> direction (analyzeHRVTrend (hrvSeries [5, 5, 5, 5, 5, 5])) = Stable
   \<and> change (analyzeHRVTrend (hrvSeries [5, 5, 5, 5, 5, 5])) = 0
   \<and> (3::nat) \<le> length [1, 2, 3, 7 :: real]
   \<and> windowChange [1, 2, 3, 7] = 2"
  using trend_window_rule [OF hrvSeries_values hrvSeries_values, of "[1, 2, 3, 7]"]
    hrvSeries_values
  by simp

text \<open>
  Both trend functions classify the local \<open>windowChange\<close> of the series they are given.
\<close>

lemma trend_of_windowChange:
  "2 \<le> length data \<Longrightarrow>
     change (analyzeHRVTrend data) = of_int (js_round (windowChange (map hrv_value data)))
     \<and> direction (analyzeHRVTrend data) =
         (if \<bar>windowChange (map hrv_value data)\<bar> < 2 then Stable
          else if 0 < windowChange (map hrv_value data) then Improving else Declining)"
  "3 \<le> length vs \<Longrightarrow>
     calculateTrend vs =
       (if \<bar>windowChange vs\<bar> < 0.2 then Stable
        else if 0 < windowChange vs then Improving else Declining)"
  by (simp_all add: analyzeHRVTrend_def calculateTrend_def Let_def split_beta)

lemma short_series_insufficient:
  "length vs < 3 \<Longrightarrow> calculateTrend vs = InsufficientData"
  "length data < 2 \<Longrightarrow> analyzeHRVTrend data =
     \<lparr> direction = InsufficientData, change = 0, change_percent = None,
       significance = NoSignificance \<rparr>"
  by (simp_all add: calculateTrend_def analyzeHRVTrend_def)

text \<open>
  Claim C2. A series of fewer than 3 values should be classified as insufficient data
  with change 0 by both variants. The variant of the sleep report does so, for one value
  and for two. The HRV variant does so for one sample, but it returns early only below 2
  samples: on every series of exactly 2 samples both windows are the whole series, and
  the result is stable with change 0.
\<close>

theorem hrv_trend_two_samples:
  "direction (analyzeHRVTrend [a, b]) = Stable
   \<and> change (analyzeHRVTrend [a, b]) = 0
   \<and> significance (analyzeHRVTrend [a, b]) = NoSignificance
   \<and> direction (analyzeHRVTrend [a, b]) \<noteq> InsufficientData
   \<and> direction (analyzeHRVTrend [a]) = InsufficientData
   \<and> change (analyzeHRVTrend [a]) = 0
   \<and> calculateTrend [x] = InsufficientData
   \<and> calculateTrend [x, y] = InsufficientData"
  by (simp add: analyzeHRVTrend_def calculateTrend_def windowChange_def recentMean_def
      earlierMean_def lastThree_def firstThree_def Let_def js_round_def)

section \<open>Properties of the sleep debt\<close>

lemma totalDebt_Nil [simp]: "totalDebt [] = 0"
  by (simp add: totalDebt_def)









subsection \<open>Three nights of 7.1, 7.1 and 7.8 hours\<close>











subsection \<open>The accumulator against the exact sum\<close>









end
